theory Spec2Isabelle
  imports Main
begin


section \<open>Data model\<close>

text \<open>
  Strings are HOL strings; a character stands for one UTF-16 code unit in the range
  0..255, so \<open>length\<close> is JavaScript's \<open>.length\<close> on such strings.
  Row identities (Prisma's \<open>@default(uuid())\<close>) are opaque and modelled as naturals.
  Points in time (\<open>new Date()\<close>) are milliseconds since the epoch.
\<close>

type_synonym uuid = nat
type_synonym time = nat

text \<open>Entity for creation/processing (types/database.ts). The enum-typed field is kept
  as the string that arrives at run time, since the validator checks membership itself.\<close>

record Entity =
  ent_id :: "uuid option"
  ent_name :: string
  ent_date :: "string option"
  ent_type :: string

record DatabaseEntity =
  row_id :: uuid
  row_name :: string
  row_date :: "string option"
  row_type :: string

record DatabaseDocument =
  doc_id :: uuid
  doc_title :: string
  doc_fileName :: string
  doc_content :: string
  doc_imageUrl :: "string option"
  doc_documentType :: string
  doc_entities :: "DatabaseEntity list"

record CreateDocumentRequest =
  title :: string
  fileName :: string
  content :: string
  imageUrl :: "string option"
  documentType :: string
  entities :: "Entity list"

record ParsedAnalysis =
  pa_documentType :: string
  pa_title :: string
  pa_content :: string
  pa_entities :: "Entity list"

record AnalysisResult =
  analysis :: ParsedAnalysis
  image :: string
  ar_fileName :: string
  ar_fileId :: "string option"
  processedAt :: time
  savedDocument :: "DatabaseDocument option"

record ProcessDocumentOptions =
  autoSave :: "bool option"
  async :: "bool option"
  forceRefresh :: "bool option"

text \<open>Values that can be thrown: \<open>AppError(message, statusCode)\<close>, another \<open>Error\<close>,
  or a value that is not an \<open>Error\<close> instance.\<close>

datatype exn = AppError string nat | Error string | NonError

text \<open>\<open>error instanceof Error ? error.message : "Unknown error"\<close>\<close>

fun message_of :: "exn \<Rightarrow> string" where
  "message_of (AppError m c) = m"
| "message_of (Error m) = m"
| "message_of NonError = ''Unknown error''"

text \<open>JavaScript truthiness of an optional boolean and of an optional string.\<close>

fun truthy_bool :: "bool option \<Rightarrow> bool" where
  "truthy_bool None = False"
| "truthy_bool (Some b) = b"

fun truthy_str :: "string option \<Rightarrow> bool" where
  "truthy_str None = False"
| "truthy_str (Some s) = (s \<noteq> [])"

section \<open>The JavaScript run time and the collaborators\<close>

text \<open>A \<open>Date\<close> object, as far as the code reads it.\<close>

record JsDate =
  getFullYear :: int
  toISOString :: string

record File =
  file_id :: string
  file_name :: string
  mimeType :: string
  file_data :: string

record FileMetadata =
  meta_name :: string
  meta_mimeType :: string

text \<open>Requests sent to the relational store through a Prisma client.\<close>

datatype db_call =
    EntityFindFirst string string
  | EntityCreate Entity
  | DocumentCreate string string string "string option" string "uuid list"

text \<open>
  What the code takes from outside: \<open>new Date(s)\<close> (\<open>None\<close> is an invalid date),
  \<open>new Date().getFullYear()\<close>, \<open>new URL(s)\<close> succeeding, the storage service, the image
  converter, the AI service, which requests the store refuses (connection loss,
  constraint violations other than the primary key), and the error of a commit that fails.
\<close>

record env =
  parseDate :: "string \<Rightarrow> JsDate option"
  currentYear :: nat
  isValidUrl :: "string \<Rightarrow> bool"
  getFileContent :: "string \<Rightarrow> exn + File"
  getFileMetadata :: "string \<Rightarrow> exn + FileMetadata"
  documentToImage :: "File \<Rightarrow> exn + string"
  analyzeImage :: "string \<Rightarrow> exn + string"
  parseAnalysis :: "string \<Rightarrow> exn + ParsedAnalysis"
  store_fails :: "db_call \<Rightarrow> bool"
  commit_error :: "exn option"

section \<open>ValidationService\<close>

record ValidationResult =
  isValid :: bool
  errors :: "string list"

text \<open>\<open>String.prototype.trim\<close>: white space and line terminators among the code units
  below 256 are TAB, LF, VT, FF, CR, SP and NBSP.\<close>

definition is_space :: "char \<Rightarrow> bool" where
  "is_space c \<longleftrightarrow> (of_char c :: nat) \<in> {9, 10, 11, 12, 13, 32, 160}"

definition trim :: "string \<Rightarrow> string" where
  "trim s = rev (dropWhile is_space (rev (dropWhile is_space s)))"

text \<open>Decimal rendering of a number inside a template literal.\<close>

fun show_nat :: "nat \<Rightarrow> string" where
  "show_nat n =
     (if n < 10 then [''0123456789'' ! n]
      else show_nat (n div 10) @ [''0123456789'' ! (n mod 10)])"

text \<open>\<open>Array.prototype.join\<close>\<close>

fun join :: "string \<Rightarrow> string list \<Rightarrow> string" where
  "join sep [] = []"
| "join sep [x] = x"
| "join sep (x # y # ys) = x @ sep @ join sep (y # ys)"

text \<open>\<open>Object.values(DocumentType)\<close> and \<open>Object.values(EntityType)\<close>, in the order of
  schema.prisma.\<close>

definition DocumentType_values :: "string list" where
  "DocumentType_values =
     [''letter'', ''report'', ''photo'', ''newspaper'', ''list'', ''diary_entry'',
      ''book'', ''map'', ''biography'']"

definition EntityType_values :: "string list" where
  "EntityType_values =
     [''person'', ''location'', ''organization'', ''event'', ''date'', ''unit'']"

definition validateEntity :: "env \<Rightarrow> Entity \<Rightarrow> ValidationResult" where
  "validateEntity env entity =
     (let name = ent_name entity; type = ent_type entity;
          e1 = (if trim name = [] then [''Entity name is required and cannot be empty'']
                else if length name > 255 then [''Entity name cannot exceed 255 characters'']
                else []);
          e2 = (if type = [] then [''Entity type is required'']
                else if type \<notin> set EntityType_values
                then [''Invalid entity type. Must be one of: '' @ join '', '' EntityType_values]
                else []);
          e3 = (if type = ''date'' then
                  (if name = [] then [''Date entity must have a name (date value)'']
                   else case parseDate env name of
                     None \<Rightarrow> [''Invalid date format. Use YYYY-MM-DD or valid date string'']
                   | Some date \<Rightarrow>
                       if getFullYear date < 1800 \<or> getFullYear date > int (currentYear env + 10)
                       then [''Date year must be between 1800 and '' @ show_nat (currentYear env + 10)]
                       else [])
                else []);
          e4 = (if type = ''person'' \<and> name \<noteq> [] \<and> length name < 2
                then [''Person name must be at least 2 characters long''] else []);
          e5 = (if type = ''location'' \<and> name \<noteq> [] \<and> length name < 2
                then [''Location name must be at least 2 characters long''] else []);
          errs = e1 @ e2 @ e3 @ e4 @ e5
      in \<lparr>isValid = (errs = []), errors = errs\<rparr>)"

text \<open>The \<open>forEach\<close> of \<open>validateEntities\<close>; \<open>index\<close> counts from 0.\<close>

fun entity_errors :: "env \<Rightarrow> nat \<Rightarrow> Entity list \<Rightarrow> string list" where
  "entity_errors env index [] = []"
| "entity_errors env index (entity # rest) =
     (let entityValidation = validateEntity env entity
      in (if \<not> isValid entityValidation
          then map (\<lambda>err. ''Entity '' @ show_nat (index + 1) @ '': '' @ err)
                 (errors entityValidation)
          else [])
         @ entity_errors env (index + 1) rest)"

definition validateEntities :: "env \<Rightarrow> Entity list \<Rightarrow> ValidationResult" where
  "validateEntities env es =
     (if length es = 0
      then \<lparr>isValid = False, errors = [''At least one entity is required'']\<rparr>
      else let errs = (if length es > 50
                       then [''Cannot have more than 50 entities per document''] else [])
                      @ entity_errors env 0 es
           in \<lparr>isValid = (errs = []), errors = errs\<rparr>)"

text \<open>The payload has the types of \<open>CreateDocumentRequest\<close>, so \<open>entities\<close> is an array
  and no property access throws: the branch \<open>Entities must be an array\<close> and the
  \<open>catch\<close> of the source are not reached.\<close>

definition validateDocumentForSave :: "env \<Rightarrow> CreateDocumentRequest \<Rightarrow> ValidationResult" where
  "validateDocumentForSave env document =
     (let e1 = (if trim (title document) = [] then [''Title is required and cannot be empty'']
                else if length (title document) > 255
                then [''Title cannot exceed 255 characters''] else []);
          e2 = (if trim (fileName document) = []
                then [''File name is required and cannot be empty'']
                else if length (fileName document) > 255
                then [''File name cannot exceed 255 characters''] else []);
          e3 = (if trim (content document) = []
                then [''Content is required and cannot be empty'']
                else if length (content document) > 10000
                then [''Content cannot exceed 10,000 characters''] else []);
          e4 = (if documentType document = [] then [''Document type is required'']
                else if documentType document \<notin> set DocumentType_values
                then [''Invalid document type. Must be one of: ''
                        @ join '', '' DocumentType_values]
                else []);
          e5 = (case imageUrl document of
                  None \<Rightarrow> []
                | Some url \<Rightarrow> if url \<noteq> [] \<and> \<not> isValidUrl env url
                              then [''Invalid image URL format''] else []);
          entityValidation = validateEntities env (entities document);
          e6 = (if \<not> isValid entityValidation then errors entityValidation else []);
          e7 = (if documentType document = ''photo'' \<and> \<not> truthy_str (imageUrl document)
                then [''Photo documents must have an image URL''] else []);
          errs = e1 @ e2 @ e3 @ e4 @ e5 @ e6 @ e7
      in \<lparr>isValid = (errs = []), errors = errs\<rparr>)"

section \<open>The relational store and the repositories\<close>

text \<open>The tables of schema.prisma, rows in insertion order. The time stamps of a
  document row are left out.\<close>

record database =
  entity_rows :: "DatabaseEntity list"
  document_rows :: "DatabaseDocument list"

text \<open>\<open>@default(uuid())\<close>: an identity that no row of the table has.\<close>

definition fresh_id :: "uuid list \<Rightarrow> uuid" where
  "fresh_id ids = Suc (fold max ids 0)"

text \<open>Case folding of \<open>mode: 'insensitive'\<close>, on the letters A to Z. Names are taken
  to be free of the pattern characters \<open>%\<close> and \<open>_\<close> and of letters outside ASCII, on
  which the comparison of the store differs from this one.\<close>

definition lower_char :: "char \<Rightarrow> char" where
  "lower_char c =
     (case map_of (zip ''ABCDEFGHIJKLMNOPQRSTUVWXYZ'' ''abcdefghijklmnopqrstuvwxyz'') c of
        None \<Rightarrow> c
      | Some l \<Rightarrow> l)"

definition lowerCase :: "string \<Rightarrow> string" where
  "lowerCase s = map lower_char s"

text \<open>Every repository method takes the client \<open>tx\<close> it works on and wraps a failure of
  the store into its own \<open>AppError\<close>.\<close>

definition findByNameAndType ::
  "env \<Rightarrow> database \<Rightarrow> string \<Rightarrow> string \<Rightarrow> exn + DatabaseEntity option" where
  "findByNameAndType env tx name type =
     (if store_fails env (EntityFindFirst name type)
      then Inl (AppError ''Failed to find entity'' 500)
      else Inr (find (\<lambda>r. lowerCase (row_name r) = lowerCase name \<and> row_type r = type)
                  (entity_rows tx)))"

text \<open>\<open>BaseRepository.create\<close> on the entity model: the data goes to the store as it
  is; a given identity that a row already has violates the primary key.\<close>

definition create :: "env \<Rightarrow> database \<Rightarrow> Entity \<Rightarrow> exn + (database \<times> DatabaseEntity)" where
  "create env tx data =
     (let ids = map row_id (entity_rows tx) in
      if store_fails env (EntityCreate data)
         \<or> (case ent_id data of None \<Rightarrow> False | Some i \<Rightarrow> i \<in> set ids)
      then Inl (AppError ''Failed to create entity'' 500)
      else let result = \<lparr>row_id = (case ent_id data of None \<Rightarrow> fresh_id ids | Some i \<Rightarrow> i),
                          row_name = ent_name data, row_date = ent_date data,
                          row_type = ent_type data\<rparr>
           in Inr (tx\<lparr>entity_rows := entity_rows tx @ [result]\<rparr>, result))"

text \<open>\<open>EntityRepository.createFromEntity\<close>: only name and type are taken from the
  argument; a date entity gets the ISO form of its name when the name parses.\<close>

definition createFromEntity ::
  "env \<Rightarrow> database \<Rightarrow> Entity \<Rightarrow> exn + (database \<times> DatabaseEntity)" where
  "createFromEntity env tx entityData =
     (let data = \<lparr>ent_id = None, ent_name = ent_name entityData,
                  ent_date =
                    (if ent_type entityData = ''date'' \<and> ent_name entityData \<noteq> []
                     then (case parseDate env (ent_name entityData) of
                             None \<Rightarrow> None | Some date \<Rightarrow> Some (toISOString date))
                     else None),
                  ent_type = ent_type entityData\<rparr>;
          ids = map row_id (entity_rows tx) in
      if store_fails env (EntityCreate data)
      then Inl (AppError ''Failed to create entity'' 500)
      else let result = \<lparr>row_id = fresh_id ids, row_name = ent_name data,
                          row_date = ent_date data, row_type = ent_type data\<rparr>
           in Inr (tx\<lparr>entity_rows := entity_rows tx @ [result]\<rparr>, result))"

text \<open>\<open>DocumentRepository.createWithEntities\<close>: \<open>connect\<close> needs every identity to
  exist; the result includes the connected entities.\<close>

definition createWithEntities ::
  "env \<Rightarrow> database \<Rightarrow> string \<times> string \<times> string \<times> string option \<times> string \<Rightarrow> uuid list
     \<Rightarrow> exn + (database \<times> DatabaseDocument)" where
  "createWithEntities env tx documentData entityIds =
     (case documentData of (t, f, c, i, d) \<Rightarrow>
        if store_fails env (DocumentCreate t f c i d entityIds)
           \<or> \<not> set entityIds \<subseteq> set (map row_id (entity_rows tx))
        then Inl (AppError ''Failed to create document'' 500)
        else let result = \<lparr>doc_id = fresh_id (map doc_id (document_rows tx)),
                            doc_title = t, doc_fileName = f, doc_content = c,
                            doc_imageUrl = i, doc_documentType = d,
                            doc_entities =
                              filter (\<lambda>r. row_id r \<in> set entityIds) (entity_rows tx)\<rparr>
             in Inr (tx\<lparr>document_rows := document_rows tx @ [result]\<rparr>, result))"

text \<open>\<open>prisma.$transaction(callback)\<close>: the callback works on a client of its own; what
  it wrote is committed when it returns and dropped when it throws.\<close>

definition transaction ::
  "env \<Rightarrow> database \<Rightarrow> (database \<Rightarrow> exn + (database \<times> 'a)) \<Rightarrow> database \<times> (exn + 'a)" where
  "transaction env db callback =
     (case callback db of
        Inl e \<Rightarrow> (db, Inl e)
      | Inr (tx, v) \<Rightarrow>
          (case commit_error env of
             None \<Rightarrow> (tx, Inr v)
           | Some e \<Rightarrow> (db, Inl e)))"

section \<open>DocumentProcessingService.saveDocument\<close>

text \<open>
  \<open>Promise.all(documentData.entities.map(async (entityData) => ...))\<close> starts every
  callback at once. Each one runs up to its first \<open>await\<close>, which sends its
  \<open>findFirst\<close>; a callback goes on to its \<open>create\<close> only after its answer has come
  back, in a later turn of the event loop. The transaction client serves requests in
  the order they were sent, so every lookup reads the rows as they were before the
  first insertion of this save.
\<close>

fun lookup_all ::
  "env \<Rightarrow> database \<Rightarrow> Entity list \<Rightarrow> exn + (DatabaseEntity option list)" where
  "lookup_all env tx [] = Inr []"
| "lookup_all env tx (entityData # rest) =
     (case findByNameAndType env tx (ent_name entityData) (ent_type entityData) of
        Inl e \<Rightarrow> Inl e
      | Inr existingEntity \<Rightarrow>
          (case lookup_all env tx rest of
             Inl e \<Rightarrow> Inl e
           | Inr found \<Rightarrow> Inr (existingEntity # found)))"

fun create_missing ::
  "env \<Rightarrow> database \<Rightarrow> (Entity \<times> DatabaseEntity option) list
     \<Rightarrow> exn + (database \<times> DatabaseEntity list)" where
  "create_missing env tx [] = Inr (tx, [])"
| "create_missing env tx ((entityData, Some existingEntity) # rest) =
     (case create_missing env tx rest of
        Inl e \<Rightarrow> Inl e
      | Inr (tx', processed) \<Rightarrow> Inr (tx', existingEntity # processed))"
| "create_missing env tx ((entityData, None) # rest) =
     (case create env tx entityData of
        Inl e \<Rightarrow> Inl e
      | Inr (tx1, created) \<Rightarrow>
          (case create_missing env tx1 rest of
             Inl e \<Rightarrow> Inl e
           | Inr (tx', processed) \<Rightarrow> Inr (tx', created # processed)))"

definition processEntities ::
  "env \<Rightarrow> database \<Rightarrow> Entity list \<Rightarrow> exn + (database \<times> DatabaseEntity list)" where
  "processEntities env tx es =
     (case lookup_all env tx es of
        Inl e \<Rightarrow> Inl e
      | Inr found \<Rightarrow> create_missing env tx (zip es found))"

definition save_callback ::
  "env \<Rightarrow> CreateDocumentRequest \<Rightarrow> database \<Rightarrow> exn + (database \<times> DatabaseDocument)" where
  "save_callback env documentData tx =
     (case processEntities env tx (entities documentData) of
        Inl e \<Rightarrow> Inl e
      | Inr (tx1, processedEntities) \<Rightarrow>
          createWithEntities env tx1
            (title documentData, fileName documentData, content documentData,
             imageUrl documentData, documentType documentData)
            (map row_id processedEntities))"

definition saveDocument ::
  "env \<Rightarrow> database \<Rightarrow> CreateDocumentRequest \<Rightarrow> database \<times> (exn + DatabaseDocument)" where
  "saveDocument env db documentData =
     (let validation = validateDocumentForSave env documentData;
          attempt =
            (if \<not> isValid validation
             then (db, Inl (AppError
                     (''Validation failed: '' @ join '', '' (errors validation)) 500))
             else transaction env db (save_callback env documentData))
      in case attempt of
           (db', Inl e) \<Rightarrow>
             (db', Inl (AppError (''Failed to save document: '' @ message_of e) 500))
         | (db', Inr document) \<Rightarrow> (db', Inr document))"

section \<open>Job tracker\<close>

datatype job_status = Pending | Processing | Completed | Failed | Cancelled

record ProcessingJob =
  job_id :: string
  status :: job_status
  progress :: nat
  result :: "AnalysisResult option"
  error :: "string option"
  createdAt :: time
  updatedAt :: time

text \<open>
  \<open>processingJobs\<close> is a \<open>Map<string, ProcessingJob>\<close> holding references: the job
  object that \<open>startAsyncProcessing\<close> creates is shared between the map and the
  closure of the background task. The objects live in \<open>jobHeap\<close> (address to object),
  the map stores addresses.
\<close>

record tracker =
  jobHeap :: "nat \<Rightarrow> ProcessingJob"
  nextAddr :: nat
  processingJobs :: "string \<rightharpoonup> nat"

definition get_job :: "tracker \<Rightarrow> string \<Rightarrow> ProcessingJob option" where
  "get_job s jobId = map_option (jobHeap s) (processingJobs s jobId)"

text \<open>Assignment to fields of the object at address \<open>a\<close>.\<close>

definition write_job :: "nat \<Rightarrow> (ProcessingJob \<Rightarrow> ProcessingJob) \<Rightarrow> tracker \<Rightarrow> tracker" where
  "write_job a f s = s\<lparr>jobHeap := (jobHeap s)(a := f (jobHeap s a))\<rparr>"

text \<open>\<open>this.processingJobs.set(jobId, job)\<close>\<close>

definition set_job :: "string \<Rightarrow> nat \<Rightarrow> tracker \<Rightarrow> tracker" where
  "set_job jobId a s = s\<lparr>processingJobs := (processingJobs s)(jobId \<mapsto> a)\<rparr>"

definition cancelProcessing :: "time \<Rightarrow> tracker \<Rightarrow> string \<Rightarrow> tracker \<times> (exn + unit)" where
  "cancelProcessing now s jobId =
     (case processingJobs s jobId of
        None \<Rightarrow> (s, Inl (AppError ''Processing job not found'' 404))
      | Some a \<Rightarrow>
          if status (jobHeap s a) = Completed \<or> status (jobHeap s a) = Failed
          then (s, Inl (AppError ''Cannot cancel completed or failed job'' 400))
          else (set_job jobId a
                  (write_job a (\<lambda>job. job\<lparr>updatedAt := now\<rparr>)
                    (write_job a (\<lambda>job. job\<lparr>status := Cancelled\<rparr>) s)),
                Inr ()))"

section \<open>Cache and DocumentProcessingService.analyzeDocument\<close>

text \<open>What the service stores in the cache: analysis results and image references.\<close>

datatype cached = CachedAnalysis AnalysisResult | CachedImage string

text \<open>
  Modelled from the spec: \<open>CacheService\<close> (services/CacheService.ts is not among the
  sources). A process-local key to value store with an expiry per entry; \<open>get\<close> of a
  missing or expired entry is absent, \<open>set\<close> takes the time to live in seconds.
\<close>

type_synonym cache = "string \<rightharpoonup> cached \<times> time"

definition cache_get :: "time \<Rightarrow> cache \<Rightarrow> string \<Rightarrow> cached option" where
  "cache_get now c key =
     (case c key of
        None \<Rightarrow> None
      | Some (v, expiry) \<Rightarrow> if now < expiry then Some v else None)"

definition cache_set :: "time \<Rightarrow> cache \<Rightarrow> string \<Rightarrow> cached \<Rightarrow> nat \<Rightarrow> cache" where
  "cache_set now c key v ttl = c(key \<mapsto> (v, now + ttl * 1000))"

text \<open>The calls that leave the service, in the order they are made.\<close>

datatype call =
    GetFileContent string
  | GetFileMetadata string
  | DocumentToImage File
  | AnalyzeImage string
  | ParseAnalysis string

text \<open>The mutable state of the process: the job table, the cache, the store behind
  the global \<open>prisma\<close> client, and the record of outgoing calls.\<close>

record service =
  jobs :: tracker
  cacheService :: cache
  prisma :: database
  calls :: "call list"

text \<open>A clock gives the time read at the k-th place of an operation that reads it.\<close>

type_synonym clock = "nat \<Rightarrow> time"

definition record_call :: "call \<Rightarrow> service \<Rightarrow> service" where
  "record_call c s = s\<lparr>calls := calls s @ [c]\<rparr>"

text \<open>\<open>convertToImage\<close> reads the cache at \<open>t_get\<close> and writes it at \<open>t_set\<close>.\<close>

definition convertToImage ::
  "env \<Rightarrow> time \<Rightarrow> time \<Rightarrow> service \<Rightarrow> File \<Rightarrow> service \<times> (exn + string)" where
  "convertToImage env t_get t_set s file =
     (let cacheKey = ''image_'' @ file_id file @ ''_'' @ mimeType file in
      case cache_get t_get (cacheService s) cacheKey of
        Some (CachedImage cachedImage) \<Rightarrow> (s, Inr cachedImage)
      | _ \<Rightarrow>
          (let s1 = record_call (DocumentToImage file) s in
           case documentToImage env file of
             Inl e \<Rightarrow>
               (s1, Inl (AppError
                  (''Failed to convert document to image: '' @ message_of e) 500))
           | Inr url \<Rightarrow>
               (s1\<lparr>cacheService :=
                     cache_set t_set (cacheService s1) cacheKey (CachedImage url) 7200\<rparr>,
                Inr url)))"

text \<open>The body of \<open>analyzeDocument\<close> after the cache check. Both storage calls of the
  \<open>Promise.all\<close> are made. When both fail the code reports the one that rejects
  first; here that is taken to be the content request.\<close>

definition analyze_uncached ::
  "env \<Rightarrow> clock \<Rightarrow> service \<Rightarrow> string \<Rightarrow> service \<times> (exn + AnalysisResult)" where
  "analyze_uncached env clk s fileId =
     (let s1 = record_call (GetFileMetadata fileId) (record_call (GetFileContent fileId) s) in
      case getFileContent env fileId of
        Inl e \<Rightarrow> (s1, Inl e)
      | Inr file0 \<Rightarrow>
     (case getFileMetadata env fileId of
        Inl e \<Rightarrow> (s1, Inl e)
      | Inr metadata \<Rightarrow>
     (let file = file0\<lparr>file_name := meta_name metadata\<rparr> in
      case convertToImage env (clk 1) (clk 2) s1 file of
        (s2, Inl e) \<Rightarrow> (s2, Inl e)
      | (s2, Inr url) \<Rightarrow>
     (let s3 = record_call (AnalyzeImage url) s2 in
      case analyzeImage env url of
        Inl e \<Rightarrow> (s3, Inl e)
      | Inr analysisText \<Rightarrow>
     (let s4 = record_call (ParseAnalysis analysisText) s3 in
      case parseAnalysis env analysisText of
        Inl e \<Rightarrow> (s4, Inl e)
      | Inr parsedAnalysis \<Rightarrow>
          (let r = \<lparr>analysis = parsedAnalysis, image = url,
                          ar_fileName = file_name file, ar_fileId = Some fileId,
                          processedAt = clk 3, savedDocument = None\<rparr>
           in (s4\<lparr>cacheService :=
                     cache_set (clk 4) (cacheService s4) (''analysis_'' @ fileId)
                       (CachedAnalysis r) 3600\<rparr>,
               Inr r)))))))"

text \<open>Under a key \<open>analysis_...\<close> the service only stores analysis results; an image
  reference found there counts as a miss.\<close>

definition analyzeDocument ::
  "env \<Rightarrow> clock \<Rightarrow> service \<Rightarrow> string \<Rightarrow> ProcessDocumentOptions
     \<Rightarrow> service \<times> (exn + AnalysisResult)" where
  "analyzeDocument env clk s fileId options =
     (case cache_get (clk 0) (cacheService s) (''analysis_'' @ fileId) of
        Some (CachedAnalysis cachedResult) \<Rightarrow>
          if \<not> truthy_bool (forceRefresh options) then (s, Inr cachedResult)
          else (case analyze_uncached env clk s fileId of
                  (s', Inl e) \<Rightarrow>
                    (s', Inl (AppError (''Failed to analyze document: '' @ message_of e) 500))
                | (s', Inr r) \<Rightarrow> (s', Inr r))
      | _ \<Rightarrow>
          (case analyze_uncached env clk s fileId of
             (s', Inl e) \<Rightarrow>
               (s', Inl (AppError (''Failed to analyze document: '' @ message_of e) 500))
           | (s', Inr r) \<Rightarrow> (s', Inr r)))"

section \<open>Background processing\<close>

text \<open>\<open>startAsyncProcessing\<close> creates the job object, puts it into the table and hands
  the rest to \<open>setImmediate\<close>. The background task is what remains to be run: it is
  suspended before its first statement, at \<open>await this.analyzeDocument\<close> or at
  \<open>await this.saveDocument\<close>, and holds the address of its job object.\<close>

datatype task =
    Scheduled nat string string ProcessDocumentOptions
  | AwaitAnalyze nat string ProcessDocumentOptions "exn + AnalysisResult"
  | AwaitSave nat string AnalysisResult "exn + DatabaseDocument"
  | Done

definition on_jobs :: "(tracker \<Rightarrow> tracker) \<Rightarrow> service \<Rightarrow> service" where
  "on_jobs f s = s\<lparr>jobs := f (jobs s)\<rparr>"

definition startAsyncProcessing ::
  "clock \<Rightarrow> service \<Rightarrow> string \<Rightarrow> string \<Rightarrow> ProcessDocumentOptions \<Rightarrow> service \<times> task" where
  "startAsyncProcessing clk s jobId fileId options =
     (let a = nextAddr (jobs s);
          job = \<lparr>job_id = jobId, status = Pending, progress = 0, result = None,
                 error = None, createdAt = clk 0, updatedAt = clk 1\<rparr>
      in (on_jobs (\<lambda>t. set_job jobId a
                     (t\<lparr>jobHeap := (jobHeap t)(a := job), nextAddr := Suc a\<rparr>)) s,
          Scheduled a jobId fileId options))"

text \<open>The \<open>catch\<close> block of the background task.\<close>

definition task_failed :: "time \<Rightarrow> nat \<Rightarrow> string \<Rightarrow> exn \<Rightarrow> service \<Rightarrow> service" where
  "task_failed now a jobId e s =
     on_jobs (\<lambda>t. set_job jobId a
        (write_job a (\<lambda>job. job\<lparr>updatedAt := now\<rparr>)
          (write_job a (\<lambda>job. job\<lparr>error := Some (message_of e)\<rparr>)
            (write_job a (\<lambda>job. job\<lparr>status := Failed\<rparr>) t)))) s"

text \<open>The last statements of the \<open>try\<close> block.\<close>

definition task_completed :: "time \<Rightarrow> nat \<Rightarrow> string \<Rightarrow> AnalysisResult \<Rightarrow> service \<Rightarrow> service" where
  "task_completed now a jobId analysisResult s =
     on_jobs (\<lambda>t. set_job jobId a
        (write_job a (\<lambda>job. job\<lparr>updatedAt := now\<rparr>)
          (write_job a (\<lambda>job. job\<lparr>result := Some analysisResult\<rparr>)
            (write_job a (\<lambda>job. job\<lparr>progress := 100\<rparr>)
              (write_job a (\<lambda>job. job\<lparr>status := Completed\<rparr>) t))))) s"

text \<open>One run of the background task, from where it is suspended to its next
  \<open>await\<close> or to its end. The awaited call is made at the end of the run and its
  outcome is kept in the suspended task.\<close>

fun task_step :: "env \<Rightarrow> clock \<Rightarrow> service \<times> task \<Rightarrow> service \<times> task" where
  "task_step env clk (s, Scheduled a jobId fileId options) =
     (let s1 = on_jobs (\<lambda>t. set_job jobId a
                  (write_job a (\<lambda>job. job\<lparr>updatedAt := clk 0\<rparr>)
                    (write_job a (\<lambda>job. job\<lparr>progress := 10\<rparr>)
                      (write_job a (\<lambda>job. job\<lparr>status := Processing\<rparr>) t)))) s;
          s2 = on_jobs (\<lambda>t. set_job jobId a
                  (write_job a (\<lambda>job. job\<lparr>updatedAt := clk 1\<rparr>)
                    (write_job a (\<lambda>job. job\<lparr>progress := 50\<rparr>) t))) s1;
          (s3, outcome) = analyzeDocument env (\<lambda>k. clk (k + 2)) s2 fileId options
      in (s3, AwaitAnalyze a jobId options outcome))"
| "task_step env clk (s, AwaitAnalyze a jobId options (Inl e)) =
     (task_failed (clk 0) a jobId e s, Done)"
| "task_step env clk (s, AwaitAnalyze a jobId options (Inr analysisResult)) =
     (let s1 = on_jobs (\<lambda>t. set_job jobId a
                  (write_job a (\<lambda>job. job\<lparr>updatedAt := clk 0\<rparr>)
                    (write_job a (\<lambda>job. job\<lparr>progress := 80\<rparr>) t))) s
      in if truthy_bool (autoSave options)
         then (let documentData =
                     \<lparr>title = pa_title (analysis analysisResult),
                      fileName = ar_fileName analysisResult,
                      content = pa_content (analysis analysisResult),
                      imageUrl = Some (image analysisResult),
                      documentType = pa_documentType (analysis analysisResult),
                      entities = pa_entities (analysis analysisResult)\<rparr>;
                   (db, outcome) = saveDocument env (prisma s1) documentData
               in (s1\<lparr>prisma := db\<rparr>, AwaitSave a jobId analysisResult outcome))
         else (task_completed (clk 1) a jobId analysisResult s1, Done))"
| "task_step env clk (s, AwaitSave a jobId analysisResult (Inl e)) =
     (task_failed (clk 0) a jobId e s, Done)"
| "task_step env clk (s, AwaitSave a jobId analysisResult (Inr saved)) =
     (task_completed (clk 0) a jobId
        (analysisResult\<lparr>savedDocument := Some saved\<rparr>) s, Done)"
| "task_step env clk (s, Done) = (s, Done)"

text \<open>A request to cancel, made on the service while background tasks may be
  suspended.\<close>

definition cancel_request :: "time \<Rightarrow> service \<Rightarrow> string \<Rightarrow> service \<times> (exn + unit)" where
  "cancel_request now s jobId =
     (case cancelProcessing now (jobs s) jobId of (t, r) \<Rightarrow> (s\<lparr>jobs := t\<rparr>, r))"

section \<open>Predicates used in the statements\<close>

text \<open>No two keys of the map hold the same job object.\<close>

definition unshared :: "tracker \<Rightarrow> bool" where
  "unshared s \<longleftrightarrow>
     (\<forall>j1 j2 a. processingJobs s j1 = Some a \<and> processingJobs s j2 = Some a \<longrightarrow> j1 = j2)"

text \<open>Every job object in the table has been allocated.\<close>

definition tracker_ok :: "tracker \<Rightarrow> bool" where
  "tracker_ok s \<longleftrightarrow>
     unshared s \<and> (\<forall>j a. processingJobs s j = Some a \<longrightarrow> a < nextAddr s)"

fun is_fetch :: "call \<Rightarrow> bool" where
  "is_fetch (GetFileContent f) = True"
| "is_fetch c = False"

fun is_convert :: "call \<Rightarrow> bool" where
  "is_convert (DocumentToImage f) = True"
| "is_convert c = False"

fun is_classify :: "call \<Rightarrow> bool" where
  "is_classify (AnalyzeImage u) = True"
| "is_classify c = False"

text \<open>At most one file fetch, one image conversion and one AI classification.\<close>

definition one_sequence :: "call list \<Rightarrow> bool" where
  "one_sequence cs \<longleftrightarrow>
     length (filter is_fetch cs) \<le> 1 \<and> length (filter is_convert cs) \<le> 1
     \<and> length (filter is_classify cs) \<le> 1"

section \<open>Example inputs\<close>

text \<open>Collaborators that always succeed: only the text \<open>1944-06-06\<close> parses as a date,
  a URL is valid when it starts with \<open>https://\<close>, every file is a PDF named
  \<open>l1.pdf\<close>, and the AI service recognises a letter that mentions John Smith.\<close>

definition example_env :: env where
  "example_env =
     \<lparr>parseDate = (\<lambda>s. if s = ''1944-06-06''
                         then Some \<lparr>getFullYear = 1944,
                                    toISOString = ''1944-06-06T00:00:00.000Z''\<rparr>
                         else None),
      currentYear = 2026,
      isValidUrl = (\<lambda>s. take 8 s = ''https://''),
      getFileContent = (\<lambda>f. Inr \<lparr>file_id = f, file_name = f,
                                    mimeType = ''application/pdf'', file_data = ''%PDF''\<rparr>),
      getFileMetadata =
        (\<lambda>f. Inr \<lparr>meta_name = ''l1.pdf'', meta_mimeType = ''application/pdf''\<rparr>),
      documentToImage = (\<lambda>file. Inr (''https://images/'' @ file_id file)),
      analyzeImage = (\<lambda>url. Inr ''raw''),
      parseAnalysis =
        (\<lambda>text. Inr \<lparr>pa_documentType = ''letter'', pa_title = ''Letter from the Front'',
                        pa_content = ''Dear all'',
                        pa_entities = [\<lparr>ent_id = None, ent_name = ''John Smith'',
                                        ent_date = None, ent_type = ''person''\<rparr>]\<rparr>),
      store_fails = (\<lambda>c. False),
      commit_error = None\<rparr>"

text \<open>The same, with a store that refuses to insert documents.\<close>

definition failing_env :: env where
  "failing_env = example_env\<lparr>store_fails :=
     (\<lambda>c. case c of DocumentCreate t f c i d es \<Rightarrow> True | _ \<Rightarrow> False)\<rparr>"

text \<open>The same, with a store that refuses lookups, one that refuses to insert
  entities, and one whose commit fails.\<close>

definition lookup_down_env :: env where
  "lookup_down_env = example_env\<lparr>store_fails :=
     (\<lambda>c. case c of EntityFindFirst n t \<Rightarrow> True | _ \<Rightarrow> False)\<rparr>"

definition create_down_env :: env where
  "create_down_env = example_env\<lparr>store_fails :=
     (\<lambda>c. case c of EntityCreate x \<Rightarrow> True | _ \<Rightarrow> False)\<rparr>"

definition commit_down_env :: env where
  "commit_down_env = example_env\<lparr>commit_error := Some (Error ''connection lost'')\<rparr>"

text \<open>The same, with an AI service that is down.\<close>

definition ai_down_env :: env where
  "ai_down_env = example_env\<lparr>analyzeImage := (\<lambda>url. Inl (Error ''AI unavailable''))\<rparr>"

definition empty_db :: database where
  "empty_db = \<lparr>entity_rows = [], document_rows = []\<rparr>"

definition person :: "string \<Rightarrow> Entity" where
  "person n = \<lparr>ent_id = None, ent_name = n, ent_date = None, ent_type = ''person''\<rparr>"

definition date_entity :: "string \<Rightarrow> Entity" where
  "date_entity n = \<lparr>ent_id = None, ent_name = n, ent_date = None, ent_type = ''date''\<rparr>"

definition letter :: "Entity list \<Rightarrow> CreateDocumentRequest" where
  "letter es = \<lparr>title = ''Letter from the Front'', fileName = ''l1.pdf'', content = ''...'',
      imageUrl = None, documentType = ''letter'', entities = es\<rparr>"

text \<open>A photo without image, with a blank title, no content and no entities.\<close>

definition bad_photo :: CreateDocumentRequest where
  "bad_photo = \<lparr>title = '' '', fileName = ''p1.jpg'', content = [],
                 imageUrl = None, documentType = ''photo'', entities = []\<rparr>"

text \<open>A payload whose fields are all too long, of an unknown type, with 51 entities.\<close>

definition oversized :: CreateDocumentRequest where
  "oversized = \<lparr>title = replicate 256 CHR ''a'', fileName = replicate 256 CHR ''b'',
                 content = replicate 10001 CHR ''c'', imageUrl = None,
                 documentType = ''memo'', entities = replicate 51 (person ''John Smith'')\<rparr>"

text \<open>The clock of an operation that starts at time \<open>t\<close> and reads the time once per
  millisecond.\<close>

definition clock_from :: "time \<Rightarrow> clock" where
  "clock_from t = (\<lambda>k. t + k)"

definition example_job :: "job_status \<Rightarrow> ProcessingJob" where
  "example_job st = \<lparr>job_id = ''job_1'', status = st, progress = 50, result = None,
     error = None, createdAt = 1000, updatedAt = 2000\<rparr>"

text \<open>A table of two jobs: \<open>job_1\<close> in the given state and a completed \<open>job_2\<close>.\<close>

definition example_tracker :: "job_status \<Rightarrow> tracker" where
  "example_tracker st =
     \<lparr>jobHeap = (\<lambda>a. if a = 0 then example_job st
                     else (example_job Completed)\<lparr>job_id := ''job_2''\<rparr>),
      nextAddr = 2,
      processingJobs = [''job_1'' \<mapsto> 0, ''job_2'' \<mapsto> 1]\<rparr>"

text \<open>A service with no jobs, an empty store, no calls made, and the given cache.\<close>

definition example_service :: "cache \<Rightarrow> service" where
  "example_service c =
     \<lparr>jobs = \<lparr>jobHeap = (\<lambda>a. example_job Completed), nextAddr = 0,
               processingJobs = Map.empty\<rparr>,
      cacheService = c, prisma = empty_db, calls = []\<rparr>"

definition no_options :: ProcessDocumentOptions where
  "no_options = \<lparr>autoSave = None, async = None, forceRefresh = None\<rparr>"

definition refresh :: ProcessDocumentOptions where
  "refresh = \<lparr>autoSave = None, async = None, forceRefresh = Some True\<rparr>"

text \<open>A cache that holds an image for file \<open>f1\<close> and no analysis.\<close>

definition image_cached :: cache where
  "image_cached =
     [''image_f1_application/pdf'' \<mapsto> (CachedImage ''https://images/old'', 5000000)]"

text \<open>What the example AI service finds in an image \<open>u\<close>, processed at time \<open>t\<close>.\<close>

definition example_analysis :: "string \<Rightarrow> time \<Rightarrow> AnalysisResult" where
  "example_analysis u t =
     \<lparr>analysis = \<lparr>pa_documentType = ''letter'', pa_title = ''Letter from the Front'',
                   pa_content = ''Dear all'',
                   pa_entities = [\<lparr>ent_id = None, ent_name = ''John Smith'',
                                   ent_date = None, ent_type = ''person''\<rparr>]\<rparr>,
      image = u, ar_fileName = ''l1.pdf'', ar_fileId = Some ''f1'',
      processedAt = t, savedDocument = None\<rparr>"

text \<open>A cache that holds an old analysis of file \<open>f1\<close> and no image.\<close>

definition analysis_cached :: cache where
  "analysis_cached =
     [''analysis_f1'' \<mapsto> (CachedAnalysis (example_analysis ''https://images/stale'' 1), 5000000)]"

text \<open>A first analysis of file \<open>f1\<close> with an empty cache, at time 1000.\<close>

definition first_analysis :: "service \<times> (exn + AnalysisResult)" where
  "first_analysis =
     analyzeDocument example_env (clock_from 1000) (example_service Map.empty) ''f1'' no_options"

text \<open>A job is submitted at time 100, its task runs at time 200 up to the awaited
  analysis, the job is cancelled at time 300, and the task resumes at time 400.\<close>

definition run_submitted :: "service \<times> task" where
  "run_submitted =
     startAsyncProcessing (clock_from 100) (example_service Map.empty) ''job_1'' ''f1'' no_options"

definition run_awaiting :: "service \<times> task" where
  "run_awaiting = task_step example_env (clock_from 200) run_submitted"

definition run_cancelled :: "service \<times> (exn + unit)" where
  "run_cancelled = cancel_request 300 (fst run_awaiting) ''job_1''"

definition run_resumed :: "service \<times> task" where
  "run_resumed = task_step example_env (clock_from 400) (fst run_cancelled, snd run_awaiting)"

text \<open>The same submission while the AI service is down, run to its end.\<close>

definition run_ai_down :: "service \<times> task" where
  "run_ai_down =
     task_step ai_down_env (clock_from 400) (task_step ai_down_env (clock_from 200) run_submitted)"

text \<open>A submission with \<open>autoSave\<close> while the store refuses to insert documents: the
  task runs to the awaited analysis, to the awaited save, and to its end.\<close>

definition save_options :: ProcessDocumentOptions where
  "save_options = \<lparr>autoSave = Some True, async = None, forceRefresh = None\<rparr>"

definition store_down_submitted :: "service \<times> task" where
  "store_down_submitted =
     startAsyncProcessing (clock_from 100) (example_service Map.empty) ''job_1'' ''f1''
       save_options"

definition store_down_analyzed :: "service \<times> task" where
  "store_down_analyzed = task_step failing_env (clock_from 200) store_down_submitted"

definition store_down_saving :: "service \<times> task" where
  "store_down_saving = task_step failing_env (clock_from 400) store_down_analyzed"

definition store_down_ended :: "service \<times> task" where
  "store_down_ended = task_step failing_env (clock_from 600) store_down_saving"


section \<open>Evaluation of the examples\<close>

lemma clock_from_simp [simp]: "clock_from t k = t + k"
  by (simp add: clock_from_def)

lemma example_env_simps:
  "parseDate example_env s
     = (if s = ''1944-06-06''
        then Some \<lparr>getFullYear = 1944, toISOString = ''1944-06-06T00:00:00.000Z''\<rparr>
        else None)"
  "currentYear example_env = 2026"
  "isValidUrl example_env u = (take 8 u = ''https://'')"
  "store_fails example_env c = False"
  "commit_error example_env = None"
  by (simp_all add: example_env_def)

lemma example_env_io:
  "getFileContent example_env f
     = Inr \<lparr>file_id = f, file_name = f, mimeType = ''application/pdf'', file_data = ''%PDF''\<rparr>"
  "getFileMetadata example_env f
     = Inr \<lparr>meta_name = ''l1.pdf'', meta_mimeType = ''application/pdf''\<rparr>"
  "documentToImage example_env file = Inr (''https://images/'' @ file_id file)"
  "analyzeImage example_env u = Inr ''raw''"
  "parseAnalysis example_env t
     = Inr \<lparr>pa_documentType = ''letter'', pa_title = ''Letter from the Front'',
            pa_content = ''Dear all'',
            pa_entities = [\<lparr>ent_id = None, ent_name = ''John Smith'',
                            ent_date = None, ent_type = ''person''\<rparr>]\<rparr>"
  by (simp_all add: example_env_def)

lemma failing_env_simps:
  "parseDate failing_env = parseDate example_env"
  "currentYear failing_env = 2026"
  "isValidUrl failing_env = isValidUrl example_env"
  "store_fails failing_env (DocumentCreate t f c i d es) = True"
  "store_fails failing_env (EntityCreate x) = False"
  "store_fails failing_env (EntityFindFirst n ty) = False"
  "commit_error failing_env = None"
  by (simp_all add: failing_env_def example_env_def)

lemma ai_down_env_io:
  "getFileContent ai_down_env f
     = Inr \<lparr>file_id = f, file_name = f, mimeType = ''application/pdf'', file_data = ''%PDF''\<rparr>"
  "getFileMetadata ai_down_env f
     = Inr \<lparr>meta_name = ''l1.pdf'', meta_mimeType = ''application/pdf''\<rparr>"
  "documentToImage ai_down_env file = Inr (''https://images/'' @ file_id file)"
  "analyzeImage ai_down_env u = Inl (Error ''AI unavailable'')"
  by (simp_all add: ai_down_env_def example_env_def)

lemmas example_defs = empty_db_def person_def letter_def date_entity_def

lemmas validation_defs = validateDocumentForSave_def validateEntities_def validateEntity_def
  trim_def is_space_def DocumentType_values_def EntityType_values_def Let_def

lemmas store_defs = transaction_def save_callback_def processEntities_def
  findByNameAndType_def create_def createWithEntities_def fresh_id_def lowerCase_def
  lower_char_def Let_def

lemmas analysis_defs = analyzeDocument_def analyze_uncached_def convertToImage_def
  cache_get_def cache_set_def record_call_def Let_def

lemmas job_defs = startAsyncProcessing_def task_completed_def task_failed_def on_jobs_def
  set_job_def write_job_def get_job_def cancel_request_def cancelProcessing_def Let_def

section \<open>Properties of the validation\<close>

lemma join_DocumentType_values:
  "join '', '' DocumentType_values
   = ''letter, report, photo, newspaper, list, diary_entry, book, map, biography''"
  by (simp add: DocumentType_values_def)

lemma trim_replicate: "\<not> is_space c \<Longrightarrow> trim (replicate n c) = replicate n c"
  by (simp add: trim_def)

lemma validateEntities_errors:
  "errors (validateEntities env []) = [''At least one entity is required'']"
  "\<not> isValid (validateEntities env [])"
  "length es > 50 \<Longrightarrow>
     ''Cannot have more than 50 entities per document'' \<in> set (errors (validateEntities env es))"
  "length es > 50 \<Longrightarrow> \<not> isValid (validateEntities env es)"
  by (auto simp: validateEntities_def Let_def)

lemma validateDocumentForSave_valid:
  "isValid (validateDocumentForSave env d) \<longleftrightarrow> errors (validateDocumentForSave env d) = []"
  by (simp add: validateDocumentForSave_def Let_def)

lemma saveDocument_invalid:
  "\<not> isValid (validateDocumentForSave env d) \<Longrightarrow>
     saveDocument env db d
       = (db, Inl (AppError (''Failed to save document: Validation failed: ''
                              @ join '', '' (errors (validateDocumentForSave env d))) 500))"
  by (simp add: saveDocument_def Let_def)

text \<open>
  Claim C8: validation collects the violations of all rules in one list, and the
  payload is valid exactly when the list is empty. A title, file name or content that
  is blank is reported as required, one that is longer than 255, 255 or 10,000
  characters as too long; a missing or unknown document type, an empty entity list,
  more than 50 entities, and a photo without image URL are each reported by their own
  message, whatever else is wrong. \<open>saveDocument\<close> throws an error that carries the
  whole list and leaves the store as it was.
\<close>

theorem validateDocumentForSave_reports_all:
  "(isValid (validateDocumentForSave env d) \<longleftrightarrow> errors (validateDocumentForSave env d) = [])
   \<and> (trim (title d) = [] \<longrightarrow>
        ''Title is required and cannot be empty'' \<in> set (errors (validateDocumentForSave env d)))
   \<and> (trim (title d) \<noteq> [] \<and> length (title d) > 255 \<longrightarrow>
        ''Title cannot exceed 255 characters'' \<in> set (errors (validateDocumentForSave env d)))
   \<and> (trim (fileName d) = [] \<longrightarrow>
        ''File name is required and cannot be empty''
          \<in> set (errors (validateDocumentForSave env d)))
   \<and> (trim (fileName d) \<noteq> [] \<and> length (fileName d) > 255 \<longrightarrow>
        ''File name cannot exceed 255 characters''
          \<in> set (errors (validateDocumentForSave env d)))
   \<and> (trim (content d) = [] \<longrightarrow>
        ''Content is required and cannot be empty''
          \<in> set (errors (validateDocumentForSave env d)))
   \<and> (trim (content d) \<noteq> [] \<and> length (content d) > 10000 \<longrightarrow>
        ''Content cannot exceed 10,000 characters''
          \<in> set (errors (validateDocumentForSave env d)))
   \<and> (documentType d = [] \<longrightarrow>
        ''Document type is required'' \<in> set (errors (validateDocumentForSave env d)))
   \<and> (documentType d \<noteq> [] \<and> documentType d \<notin> set DocumentType_values \<longrightarrow>
        ''Invalid document type. Must be one of: letter, report, photo, newspaper, list, diary_entry, book, map, biography''
          \<in> set (errors (validateDocumentForSave env d)))
   \<and> (entities d = [] \<longrightarrow>
        ''At least one entity is required'' \<in> set (errors (validateDocumentForSave env d)))
   \<and> (length (entities d) > 50 \<longrightarrow>
        ''Cannot have more than 50 entities per document''
          \<in> set (errors (validateDocumentForSave env d)))
   \<and> (documentType d = ''photo'' \<and> \<not> truthy_str (imageUrl d) \<longrightarrow>
        ''Photo documents must have an image URL''
          \<in> set (errors (validateDocumentForSave env d)))
   \<and> (\<not> isValid (validateDocumentForSave env d) \<longrightarrow>
        saveDocument env db d
          = (db, Inl (AppError (''Failed to save document: Validation failed: ''
                                 @ join '', '' (errors (validateDocumentForSave env d))) 500)))"
proof (intro conjI impI)
  show "isValid (validateDocumentForSave env d) \<longleftrightarrow> errors (validateDocumentForSave env d) = []"
    by (rule validateDocumentForSave_valid)
next
  assume "\<not> isValid (validateDocumentForSave env d)"
  then show "saveDocument env db d
          = (db, Inl (AppError (''Failed to save document: Validation failed: ''
                                 @ join '', '' (errors (validateDocumentForSave env d))) 500))"
    by (rule saveDocument_invalid)
next
  assume "entities d = []"
  then show "''At least one entity is required'' \<in> set (errors (validateDocumentForSave env d))"
    by (simp add: validateDocumentForSave_def Let_def validateEntities_errors)
next
  assume "length (entities d) > 50"
  then show "''Cannot have more than 50 entities per document''
          \<in> set (errors (validateDocumentForSave env d))"
    by (simp add: validateDocumentForSave_def Let_def validateEntities_errors)
qed (simp_all add: validateDocumentForSave_def Let_def join_DocumentType_values)

lemma bad_photo_errors:
  "errors (validateDocumentForSave example_env bad_photo)
   = [''Title is required and cannot be empty'', ''Content is required and cannot be empty'',
      ''At least one entity is required'', ''Photo documents must have an image URL'']"
  by (simp add: bad_photo_def validation_defs)

lemma oversized_facts:
  "trim (title oversized) \<noteq> []" "length (title oversized) > 255"
  "trim (fileName oversized) \<noteq> []" "length (fileName oversized) > 255"
  "trim (content oversized) \<noteq> []" "length (content oversized) > 10000"
  "documentType oversized \<noteq> []" "documentType oversized \<notin> set DocumentType_values"
  "length (entities oversized) > 50"
  by (simp_all add: oversized_def trim_replicate is_space_def DocumentType_values_def)

theorem validateDocumentForSave_reports_all_witness:
  "trim (title bad_photo) = [] \<and> trim (content bad_photo) = [] \<and> entities bad_photo = []
   \<and> documentType bad_photo = ''photo'' \<and> \<not> truthy_str (imageUrl bad_photo)
   \<and> errors (validateDocumentForSave example_env bad_photo)
       = [''Title is required and cannot be empty'', ''Content is required and cannot be empty'',
          ''At least one entity is required'', ''Photo documents must have an image URL'']
   \<and> saveDocument example_env empty_db bad_photo
       = (empty_db, Inl (AppError ''Failed to save document: Validation failed: Title is required and cannot be empty, Content is required and cannot be empty, At least one entity is required, Photo documents must have an image URL'' 500))
   \<and> trim (title oversized) \<noteq> [] \<and> length (title oversized) > 255
   \<and> trim (fileName oversized) \<noteq> [] \<and> length (fileName oversized) > 255
   \<and> trim (content oversized) \<noteq> [] \<and> length (content oversized) > 10000
   \<and> documentType oversized \<noteq> [] \<and> documentType oversized \<notin> set DocumentType_values
   \<and> length (entities oversized) > 50
   \<and> {''Title cannot exceed 255 characters'', ''File name cannot exceed 255 characters'',
       ''Content cannot exceed 10,000 characters'',
       ''Invalid document type. Must be one of: letter, report, photo, newspaper, list, diary_entry, book, map, biography'',
       ''Cannot have more than 50 entities per document''}
       \<subseteq> set (errors (validateDocumentForSave example_env oversized))
   \<and> \<not> isValid (validateDocumentForSave example_env oversized)"
proof -
  have blank: "trim (title bad_photo) = []" "trim (content bad_photo) = []"
    "entities bad_photo = []" "documentType bad_photo = ''photo''"
    "\<not> truthy_str (imageUrl bad_photo)"
    by (simp_all add: bad_photo_def trim_def is_space_def)
  have invalid: "\<not> isValid (validateDocumentForSave example_env bad_photo)"
    by (simp add: validateDocumentForSave_valid bad_photo_errors)
  from validateDocumentForSave_reports_all [of example_env bad_photo empty_db] invalid
  have save: "saveDocument example_env empty_db bad_photo
       = (empty_db, Inl (AppError ''Failed to save document: Validation failed: Title is required and cannot be empty, Content is required and cannot be empty, At least one entity is required, Photo documents must have an image URL'' 500))"
    by (simp add: bad_photo_errors)
  from validateDocumentForSave_reports_all [of example_env oversized empty_db] oversized_facts
  have listed: "{''Title cannot exceed 255 characters'',
       ''File name cannot exceed 255 characters'', ''Content cannot exceed 10,000 characters'',
       ''Invalid document type. Must be one of: letter, report, photo, newspaper, list, diary_entry, book, map, biography'',
       ''Cannot have more than 50 entities per document''}
       \<subseteq> set (errors (validateDocumentForSave example_env oversized))"
    and bad: "\<not> isValid (validateDocumentForSave example_env oversized)"
    by auto
  show ?thesis
    using blank bad_photo_errors save oversized_facts listed bad by simp
qed

section \<open>Properties of saving\<close>

lemma entity_errors_nonempty:
  "x \<in> set es \<Longrightarrow> \<not> isValid (validateEntity env x) \<Longrightarrow> entity_errors env i es \<noteq> []"
proof (induction es arbitrary: i)
  case Nil
  then show ?case by simp
next
  case (Cons y es)
  show ?case
  proof (cases "isValid (validateEntity env y)")
    case True
    with Cons.prems have "x \<in> set es" by auto
    with Cons True show ?thesis by (simp add: Let_def)
  next
    case False
    then have "errors (validateEntity env y) \<noteq> []"
      by (simp add: validateEntity_def Let_def)
    with False show ?thesis by (simp add: Let_def)
  qed
qed

lemma validateEntity_date_unparsed:
  "ent_type x = ''date'' \<Longrightarrow> parseDate env (ent_name x) = None \<Longrightarrow>
     \<not> isValid (validateEntity env x)"
  by (simp add: validateEntity_def Let_def)

lemma validateEntities_invalid:
  "x \<in> set es \<Longrightarrow> \<not> isValid (validateEntity env x) \<Longrightarrow> \<not> isValid (validateEntities env es)"
  using entity_errors_nonempty [of x es env 0]
  by (auto simp: validateEntities_def Let_def)

lemma validateDocumentForSave_invalid_entity:
  "x \<in> set (entities d) \<Longrightarrow> \<not> isValid (validateEntity env x) \<Longrightarrow>
     \<not> isValid (validateDocumentForSave env d)"
  using validateEntities_invalid [of x "entities d" env]
  by (auto simp: validateDocumentForSave_def Let_def validateEntities_def)

text \<open>
  Claim C4, as stated, fails: a date entity whose name does not parse makes the save
  fail. With the example collaborators the text \<open>sometime in June\<close> is an invalid date;
  saving a letter with that date entity throws the validation error and creates nothing.
\<close>

theorem saveDocument_unparsed_date_blocks:
  "parseDate example_env (ent_name (date_entity ''sometime in June'')) = None
   \<and> saveDocument example_env empty_db (letter [date_entity ''sometime in June''])
     = (empty_db, Inl (AppError ''Failed to save document: Validation failed: Entity 1: Invalid date format. Use YYYY-MM-DD or valid date string'' 500))"
  by (simp add: saveDocument_def example_defs validation_defs example_env_simps)

text \<open>
  Claim C4, amended: a save payload with an entity of type date whose name does not
  parse as a date is rejected by validation: \<open>saveDocument\<close> throws the validation
  error and the store is unchanged, so no entity is created from a malformed date.
  The lenient creation is that of \<open>EntityRepository.createFromEntity\<close>: unless the
  store refuses the insert, it creates the row of a named date entity, with the ISO
  form of the name as date when the name parses and without a date when it does not.
\<close>

theorem date_entity_policy:
  "(x \<in> set (entities d) \<and> ent_type x = ''date'' \<and> parseDate env (ent_name x) = None \<longrightarrow>
      saveDocument env db d
        = (db, Inl (AppError (''Failed to save document: Validation failed: ''
                               @ join '', '' (errors (validateDocumentForSave env d))) 500))
      \<and> errors (validateDocumentForSave env d) \<noteq> [])
   \<and> (ent_type x = ''date'' \<and> ent_name x \<noteq> []
       \<and> \<not> store_fails env (EntityCreate \<lparr>ent_id = None, ent_name = ent_name x,
              ent_date = map_option toISOString (parseDate env (ent_name x)),
              ent_type = ''date''\<rparr>) \<longrightarrow>
      createFromEntity env tx x
        = (let row = \<lparr>row_id = fresh_id (map row_id (entity_rows tx)), row_name = ent_name x,
                      row_date = map_option toISOString (parseDate env (ent_name x)),
                      row_type = ''date''\<rparr>
           in Inr (tx\<lparr>entity_rows := entity_rows tx @ [row]\<rparr>, row)))"
proof (intro conjI impI)
  assume a: "x \<in> set (entities d) \<and> ent_type x = ''date'' \<and> parseDate env (ent_name x) = None"
  then have inv: "\<not> isValid (validateDocumentForSave env d)"
    using validateEntity_date_unparsed validateDocumentForSave_invalid_entity by blast
  then show "saveDocument env db d
        = (db, Inl (AppError (''Failed to save document: Validation failed: ''
                               @ join '', '' (errors (validateDocumentForSave env d))) 500))"
    by (rule saveDocument_invalid)
  from inv show "errors (validateDocumentForSave env d) \<noteq> []"
    by (simp add: validateDocumentForSave_def Let_def)
next
  assume "ent_type x = ''date'' \<and> ent_name x \<noteq> []
       \<and> \<not> store_fails env (EntityCreate \<lparr>ent_id = None, ent_name = ent_name x,
              ent_date = map_option toISOString (parseDate env (ent_name x)),
              ent_type = ''date''\<rparr>)"
  then show "createFromEntity env tx x
        = (let row = \<lparr>row_id = fresh_id (map row_id (entity_rows tx)), row_name = ent_name x,
                      row_date = map_option toISOString (parseDate env (ent_name x)),
                      row_type = ''date''\<rparr>
           in Inr (tx\<lparr>entity_rows := entity_rows tx @ [row]\<rparr>, row))"
    by (cases "parseDate env (ent_name x)") (simp_all add: createFromEntity_def Let_def)
qed

theorem date_entity_policy_witness:
  "date_entity ''sometime in June'' \<in> set (entities (letter [date_entity ''sometime in June'']))
   \<and> ent_type (date_entity ''sometime in June'') = ''date''
   \<and> parseDate example_env (ent_name (date_entity ''sometime in June'')) = None
   \<and> fst (saveDocument example_env empty_db (letter [date_entity ''sometime in June'']))
       = empty_db
   \<and> createFromEntity example_env empty_db (date_entity ''sometime in June'')
       = Inr (\<lparr>entity_rows = [\<lparr>row_id = 1, row_name = ''sometime in June'', row_date = None,
                                  row_type = ''date''\<rparr>], document_rows = []\<rparr>,
              \<lparr>row_id = 1, row_name = ''sometime in June'', row_date = None,
                 row_type = ''date''\<rparr>)
   \<and> createFromEntity example_env empty_db (date_entity ''1944-06-06'')
       = Inr (\<lparr>entity_rows = [\<lparr>row_id = 1, row_name = ''1944-06-06'',
                                  row_date = Some ''1944-06-06T00:00:00.000Z'',
                                  row_type = ''date''\<rparr>], document_rows = []\<rparr>,
              \<lparr>row_id = 1, row_name = ''1944-06-06'',
                 row_date = Some ''1944-06-06T00:00:00.000Z'', row_type = ''date''\<rparr>)"
proof -
  have h: "date_entity ''sometime in June''
             \<in> set (entities (letter [date_entity ''sometime in June'']))"
    "ent_type (date_entity ''sometime in June'') = ''date''"
    "parseDate example_env (ent_name (date_entity ''sometime in June'')) = None"
    "ent_name (date_entity ''sometime in June'') \<noteq> []"
    by (simp_all add: letter_def date_entity_def example_env_simps)
  have g: "ent_type (date_entity ''1944-06-06'') = ''date''"
    "ent_name (date_entity ''1944-06-06'') = ''1944-06-06''"
    by (simp_all add: date_entity_def)
  have ok: "\<not> store_fails example_env c" for c
    by (simp add: example_env_simps)
  from date_entity_policy [of "date_entity ''sometime in June''"
      "letter [date_entity ''sometime in June'']" example_env empty_db empty_db] h ok
  have saved: "fst (saveDocument example_env empty_db (letter [date_entity ''sometime in June'']))
                 = empty_db"
    and lenient: "createFromEntity example_env empty_db (date_entity ''sometime in June'')
       = Inr (\<lparr>entity_rows = [\<lparr>row_id = 1, row_name = ''sometime in June'', row_date = None,
                                  row_type = ''date''\<rparr>], document_rows = []\<rparr>,
              \<lparr>row_id = 1, row_name = ''sometime in June'', row_date = None,
                 row_type = ''date''\<rparr>)"
    by (simp_all add: fresh_id_def empty_db_def date_entity_def Let_def)
  from date_entity_policy [of "date_entity ''1944-06-06''"
      "letter [date_entity ''sometime in June'']" example_env empty_db empty_db] g ok
  have parsed: "createFromEntity example_env empty_db (date_entity ''1944-06-06'')
       = Inr (\<lparr>entity_rows = [\<lparr>row_id = 1, row_name = ''1944-06-06'',
                                  row_date = Some ''1944-06-06T00:00:00.000Z'',
                                  row_type = ''date''\<rparr>], document_rows = []\<rparr>,
              \<lparr>row_id = 1, row_name = ''1944-06-06'',
                 row_date = Some ''1944-06-06T00:00:00.000Z'', row_type = ''date''\<rparr>)"
    by (simp add: example_env_simps fresh_id_def empty_db_def date_entity_def Let_def)
  from h saved lenient parsed show ?thesis by simp
qed

text \<open>A date entity that passes validation is stored by \<open>BaseRepository.create\<close>, which
  does not derive a date from the name.\<close>

lemma saveDocument_date_row:
  "entity_rows (fst (saveDocument example_env empty_db (letter [date_entity ''1944-06-06''])))
   = [\<lparr>row_id = 1, row_name = ''1944-06-06'', row_date = None, row_type = ''date''\<rparr>]"
  by (simp add: saveDocument_def example_defs validation_defs store_defs example_env_simps)

text \<open>
  Claim C1 fails on the code: the lookups of one save all run before its first
  insertion. Saving the letter whose entities are the persons \<open>John Smith\<close> and
  \<open>john smith\<close>, which share one lower-case name and type, into an empty store
  creates two entity rows.
\<close>

theorem saveDocument_duplicate_rows:
  "lowerCase (ent_name (person ''John Smith'')) = lowerCase (ent_name (person ''john smith''))
   \<and> ent_type (person ''John Smith'') = ent_type (person ''john smith'')
   \<and> isValid (validateDocumentForSave example_env
        (letter [person ''John Smith'', person ''john smith'']))
   \<and> entity_rows (fst (saveDocument example_env empty_db
         (letter [person ''John Smith'', person ''john smith''])))
     = [\<lparr>row_id = 1, row_name = ''John Smith'', row_date = None, row_type = ''person''\<rparr>,
        \<lparr>row_id = 2, row_name = ''john smith'', row_date = None, row_type = ''person''\<rparr>]"
  by (simp add: saveDocument_def example_defs validation_defs store_defs example_env_simps)

lemma lookup_all_fails:
  "x \<in> set es \<Longrightarrow> store_fails env (EntityFindFirst (ent_name x) (ent_type x)) \<Longrightarrow>
     lookup_all env tx es = Inl (AppError ''Failed to find entity'' 500)"
proof (induction es)
  case Nil
  then show ?case by simp
next
  case (Cons y es)
  show ?case
  proof (cases "store_fails env (EntityFindFirst (ent_name y) (ent_type y))")
    case True
    then show ?thesis by (simp add: findByNameAndType_def)
  next
    case False
    with Cons.prems have "x \<in> set es" by auto
    with Cons have "lookup_all env tx es = Inl (AppError ''Failed to find entity'' 500)"
      by simp
    with False show ?thesis by (simp add: findByNameAndType_def)
  qed
qed

lemma createWithEntities_fails:
  "store_fails env (DocumentCreate t f c i d ids) \<Longrightarrow>
     createWithEntities env tx (t, f, c, i, d) ids = Inl (AppError ''Failed to create document'' 500)"
  by (simp add: createWithEntities_def)

lemma lookup_all_ok:
  "\<forall>y\<in>set es. \<not> store_fails env (EntityFindFirst (ent_name y) (ent_type y)) \<Longrightarrow>
   lookup_all env tx es
   = Inr (map (\<lambda>y. find (\<lambda>r. lowerCase (row_name r) = lowerCase (ent_name y)
                                \<and> row_type r = ent_type y) (entity_rows tx)) es)"
  by (induction es) (simp_all add: findByNameAndType_def)

lemma create_fails:
  "store_fails env (EntityCreate x) \<Longrightarrow> create env tx x = Inl (AppError ''Failed to create entity'' 500)"
  by (simp add: create_def)

lemma create_error:
  "create env tx x = Inl e \<Longrightarrow> e = AppError ''Failed to create entity'' 500"
  by (auto simp: create_def Let_def split: if_splits)

lemma create_missing_fails:
  "(x, None) \<in> set ps \<Longrightarrow> store_fails env (EntityCreate x) \<Longrightarrow>
   create_missing env tx ps = Inl (AppError ''Failed to create entity'' 500)"
proof (induction env tx ps rule: create_missing.induct)
  case (1 env tx)
  then show ?case by simp
next
  case (2 env tx entityData existingEntity rest)
  then show ?case by simp
next
  case (3 env tx entityData rest)
  show ?case
  proof (cases "create env tx entityData")
    case (Inl e)
    with create_error [OF Inl] show ?thesis by simp
  next
    case (Inr p)
    obtain tx1 created where p: "p = (tx1, created)" by (cases p)
    from Inr create_fails [of env entityData tx] "3.prems"
    have "x \<noteq> entityData" by auto
    with "3.prems" have "(x, None) \<in> set rest" by auto
    from "3.IH" [OF Inr [unfolded p] refl this "3.prems"(2)] Inr p
    show ?thesis by simp
  qed
qed


lemma zip_map_self: "zip es (map f es) = map (\<lambda>y. (y, f y)) es"
  by (induction es) simp_all

lemma processEntities_lookup_fails:
  "x \<in> set es \<Longrightarrow> store_fails env (EntityFindFirst (ent_name x) (ent_type x)) \<Longrightarrow>
     processEntities env tx es = Inl (AppError ''Failed to find entity'' 500)"
  by (simp add: processEntities_def lookup_all_fails)

lemma processEntities_create_fails:
  assumes "\<forall>y\<in>set es. \<not> store_fails env (EntityFindFirst (ent_name y) (ent_type y))"
    and "x \<in> set es"
    and "find (\<lambda>r. lowerCase (row_name r) = lowerCase (ent_name x) \<and> row_type r = ent_type x)
           (entity_rows tx) = None"
    and "store_fails env (EntityCreate x)"
  shows "processEntities env tx es = Inl (AppError ''Failed to create entity'' 500)"
proof -
  let ?f = "\<lambda>y. find (\<lambda>r. lowerCase (row_name r) = lowerCase (ent_name y)
                              \<and> row_type r = ent_type y) (entity_rows tx)"
  from assms(2,3) have "(x, None) \<in> set (zip es (map ?f es))"
    unfolding zip_map_self by force
  from create_missing_fails [OF this assms(4)] lookup_all_ok [OF assms(1)]
  show ?thesis by (simp add: processEntities_def)
qed

lemma create_missing_ok:
  "\<forall>p\<in>set ps. ent_id (fst p) = None \<and> \<not> store_fails env (EntityCreate (fst p)) \<Longrightarrow>
   \<exists>tx' rs. create_missing env tx ps = Inr (tx', rs)"
proof (induction env tx ps rule: create_missing.induct)
  case (1 env tx)
  then show ?case by simp
next
  case (2 env tx entityData existingEntity rest)
  then obtain tx' rs where "create_missing env tx rest = Inr (tx', rs)" by auto
  then show ?case by simp
next
  case (3 env tx entityData rest)
  from "3.prems" obtain tx1 created where c: "create env tx entityData = Inr (tx1, created)"
    by (auto simp: create_def Let_def)
  from "3.IH" [OF c refl] "3.prems"
  obtain tx' rs where "create_missing env tx1 rest = Inr (tx', rs)" by auto
  with c show ?case by simp
qed

lemma processEntities_ok:
  assumes "\<forall>y\<in>set es. \<not> store_fails env (EntityFindFirst (ent_name y) (ent_type y))"
    and "\<forall>y\<in>set es. ent_id y = None \<and> \<not> store_fails env (EntityCreate y)"
  shows "\<exists>tx' rs. processEntities env tx es = Inr (tx', rs)"
proof -
  let ?f = "\<lambda>y. find (\<lambda>r. lowerCase (row_name r) = lowerCase (ent_name y)
                              \<and> row_type r = ent_type y) (entity_rows tx)"
  from assms(2) have "\<forall>p\<in>set (zip es (map ?f es)).
      ent_id (fst p) = None \<and> \<not> store_fails env (EntityCreate (fst p))"
    unfolding zip_map_self by simp
  from create_missing_ok [OF this, of tx] lookup_all_ok [OF assms(1)]
  show ?thesis by (simp add: processEntities_def)
qed

lemma saveDocument_callback_fails:
  "isValid (validateDocumentForSave env d) \<Longrightarrow> save_callback env d db = Inl x \<Longrightarrow>
     saveDocument env db d
       = (db, Inl (AppError (''Failed to save document: '' @ message_of x) 500))"
  by (simp add: saveDocument_def transaction_def Let_def)

text \<open>
  Claim C7: a save leaves the store as it was whenever a step of its transaction
  fails. For a valid payload: when the store refuses the lookup of one of the
  entities, the save throws \<open>Failed to find entity\<close>; when the lookups succeed and the
  store refuses to insert an entity that was not found, it throws
  \<open>Failed to create entity\<close>; when lookups and entity insertions succeed and the store
  refuses to insert the document, it throws \<open>Failed to create document\<close>. In each
  case, as when the commit fails and on every other error of \<open>saveDocument\<close>, the
  store returned is the one the save started with: neither the document nor an entity
  inserted before the failure is in it.
\<close>

theorem saveDocument_all_or_nothing:
  "(isValid (validateDocumentForSave env d) \<and> x \<in> set (entities d)
      \<and> store_fails env (EntityFindFirst (ent_name x) (ent_type x)) \<longrightarrow>
        saveDocument env db d
          = (db, Inl (AppError ''Failed to save document: Failed to find entity'' 500)))
   \<and> (isValid (validateDocumentForSave env d)
      \<and> (\<forall>y\<in>set (entities d). \<not> store_fails env (EntityFindFirst (ent_name y) (ent_type y)))
      \<and> x \<in> set (entities d)
      \<and> find (\<lambda>r. lowerCase (row_name r) = lowerCase (ent_name x) \<and> row_type r = ent_type x)
           (entity_rows db) = None
      \<and> store_fails env (EntityCreate x) \<longrightarrow>
        saveDocument env db d
          = (db, Inl (AppError ''Failed to save document: Failed to create entity'' 500)))
   \<and> (isValid (validateDocumentForSave env d)
      \<and> (\<forall>y\<in>set (entities d). \<not> store_fails env (EntityFindFirst (ent_name y) (ent_type y)))
      \<and> (\<forall>y\<in>set (entities d). ent_id y = None \<and> \<not> store_fails env (EntityCreate y))
      \<and> (\<forall>ids. store_fails env (DocumentCreate (title d) (fileName d) (content d)
                   (imageUrl d) (documentType d) ids)) \<longrightarrow>
        saveDocument env db d
          = (db, Inl (AppError ''Failed to save document: Failed to create document'' 500)))
   \<and> (commit_error env \<noteq> None \<longrightarrow>
        fst (saveDocument env db d) = db
        \<and> (\<exists>m. snd (saveDocument env db d) = Inl (AppError m 500)))
   \<and> (snd (saveDocument env db d) = Inl e \<longrightarrow> fst (saveDocument env db d) = db)"
proof (intro conjI impI)
  assume a: "isValid (validateDocumentForSave env d) \<and> x \<in> set (entities d)
      \<and> store_fails env (EntityFindFirst (ent_name x) (ent_type x))"
  then have "processEntities env db (entities d) = Inl (AppError ''Failed to find entity'' 500)"
    by (intro processEntities_lookup_fails [of x]) simp_all
  then have "save_callback env d db = Inl (AppError ''Failed to find entity'' 500)"
    by (simp add: save_callback_def)
  with a show "saveDocument env db d
          = (db, Inl (AppError ''Failed to save document: Failed to find entity'' 500))"
    by (simp add: saveDocument_callback_fails)
next
  assume a: "isValid (validateDocumentForSave env d)
      \<and> (\<forall>y\<in>set (entities d). \<not> store_fails env (EntityFindFirst (ent_name y) (ent_type y)))
      \<and> x \<in> set (entities d)
      \<and> find (\<lambda>r. lowerCase (row_name r) = lowerCase (ent_name x) \<and> row_type r = ent_type x)
           (entity_rows db) = None
      \<and> store_fails env (EntityCreate x)"
  then have "processEntities env db (entities d) = Inl (AppError ''Failed to create entity'' 500)"
    by (intro processEntities_create_fails [of _ _ x]) simp_all
  then have "save_callback env d db = Inl (AppError ''Failed to create entity'' 500)"
    by (simp add: save_callback_def)
  with a show "saveDocument env db d
          = (db, Inl (AppError ''Failed to save document: Failed to create entity'' 500))"
    by (simp add: saveDocument_callback_fails)
next
  assume a: "isValid (validateDocumentForSave env d)
      \<and> (\<forall>y\<in>set (entities d). \<not> store_fails env (EntityFindFirst (ent_name y) (ent_type y)))
      \<and> (\<forall>y\<in>set (entities d). ent_id y = None \<and> \<not> store_fails env (EntityCreate y))
      \<and> (\<forall>ids. store_fails env (DocumentCreate (title d) (fileName d) (content d)
                   (imageUrl d) (documentType d) ids))"
  then obtain tx' rs where "processEntities env db (entities d) = Inr (tx', rs)"
    using processEntities_ok [of "entities d" env db] by blast
  with a have "save_callback env d db = Inl (AppError ''Failed to create document'' 500)"
    by (simp add: save_callback_def createWithEntities_fails)
  with a show "saveDocument env db d
          = (db, Inl (AppError ''Failed to save document: Failed to create document'' 500))"
    by (simp add: saveDocument_callback_fails)
next
  assume "commit_error env \<noteq> None"
  then show "fst (saveDocument env db d) = db"
    and "\<exists>m. snd (saveDocument env db d) = Inl (AppError m 500)"
    by (auto simp: saveDocument_def transaction_def Let_def
        split: if_splits sum.splits prod.splits option.splits)
next
  assume "snd (saveDocument env db d) = Inl e"
  then show "fst (saveDocument env db d) = db"
    by (auto simp: saveDocument_def transaction_def Let_def
        split: if_splits sum.splits prod.splits option.splits)
qed


lemma one_person_valid:
  "isValid (validateDocumentForSave failing_env (letter [person ''John Smith'']))"
  by (simp add: example_defs validation_defs example_env_simps failing_env_simps)

lemma processEntities_failing_env:
  "processEntities failing_env empty_db [person ''John Smith'']
   = Inr (\<lparr>entity_rows = [\<lparr>row_id = 1, row_name = ''John Smith'', row_date = None,
                              row_type = ''person''\<rparr>], document_rows = []\<rparr>,
          [\<lparr>row_id = 1, row_name = ''John Smith'', row_date = None, row_type = ''person''\<rparr>])"
  by (simp add: example_defs store_defs failing_env_simps)

lemma save_callback_failing_env:
  "save_callback failing_env (letter [person ''John Smith'']) empty_db
   = Inl (AppError ''Failed to create document'' 500)"
  by (simp add: save_callback_def processEntities_failing_env createWithEntities_fails
      failing_env_simps letter_def)

lemma down_env_simps:
  "parseDate lookup_down_env = parseDate example_env"
  "currentYear lookup_down_env = 2026"
  "isValidUrl lookup_down_env = isValidUrl example_env"
  "store_fails lookup_down_env (EntityFindFirst n ty) = True"
  "parseDate create_down_env = parseDate example_env"
  "currentYear create_down_env = 2026"
  "isValidUrl create_down_env = isValidUrl example_env"
  "store_fails create_down_env (EntityFindFirst n ty) = False"
  "store_fails create_down_env (EntityCreate x) = True"
  "commit_error commit_down_env = Some (Error ''connection lost'')"
  by (simp_all add: lookup_down_env_def create_down_env_def commit_down_env_def example_env_def)

lemma one_person_valid_down:
  "isValid (validateDocumentForSave lookup_down_env (letter [person ''John Smith'']))"
  "isValid (validateDocumentForSave create_down_env (letter [person ''John Smith'']))"
  by (simp_all add: example_defs validation_defs example_env_simps down_env_simps)

theorem saveDocument_all_or_nothing_witness:
  "isValid (validateDocumentForSave lookup_down_env (letter [person ''John Smith'']))
   \<and> store_fails lookup_down_env (EntityFindFirst ''John Smith'' ''person'')
   \<and> saveDocument lookup_down_env empty_db (letter [person ''John Smith''])
       = (empty_db, Inl (AppError ''Failed to save document: Failed to find entity'' 500))
   \<and> isValid (validateDocumentForSave create_down_env (letter [person ''John Smith'']))
   \<and> \<not> store_fails create_down_env (EntityFindFirst ''John Smith'' ''person'')
   \<and> store_fails create_down_env (EntityCreate (person ''John Smith''))
   \<and> saveDocument create_down_env empty_db (letter [person ''John Smith''])
       = (empty_db, Inl (AppError ''Failed to save document: Failed to create entity'' 500))
   \<and> isValid (validateDocumentForSave failing_env (letter [person ''John Smith'']))
   \<and> processEntities failing_env empty_db [person ''John Smith'']
       = Inr (\<lparr>entity_rows = [\<lparr>row_id = 1, row_name = ''John Smith'', row_date = None,
                                  row_type = ''person''\<rparr>], document_rows = []\<rparr>,
              [\<lparr>row_id = 1, row_name = ''John Smith'', row_date = None,
                 row_type = ''person''\<rparr>])
   \<and> saveDocument failing_env empty_db (letter [person ''John Smith''])
       = (empty_db, Inl (AppError ''Failed to save document: Failed to create document'' 500))
   \<and> commit_error commit_down_env \<noteq> None
   \<and> fst (saveDocument commit_down_env empty_db (letter [person ''John Smith''])) = empty_db"
proof -
  let ?d = "letter [person ''John Smith'']"
  have ents: "entities ?d = [person ''John Smith'']"
    "ent_name (person ''John Smith'') = ''John Smith''"
    "ent_type (person ''John Smith'') = ''person''"
    "ent_id (person ''John Smith'') = None"
    "entity_rows empty_db = []"
    by (simp_all add: letter_def person_def empty_db_def)
  from saveDocument_all_or_nothing [of lookup_down_env ?d "person ''John Smith''" empty_db]
    one_person_valid_down(1)
  have r1: "saveDocument lookup_down_env empty_db ?d
       = (empty_db, Inl (AppError ''Failed to save document: Failed to find entity'' 500))"
    by (simp add: ents down_env_simps)
  from saveDocument_all_or_nothing [of create_down_env ?d "person ''John Smith''" empty_db]
    one_person_valid_down(2)
  have r2: "saveDocument create_down_env empty_db ?d
       = (empty_db, Inl (AppError ''Failed to save document: Failed to create entity'' 500))"
    by (simp add: ents down_env_simps)
  have fields: "title ?d = ''Letter from the Front''" "fileName ?d = ''l1.pdf''"
    "content ?d = ''...''" "imageUrl ?d = None" "documentType ?d = ''letter''"
    by (simp_all add: letter_def)
  from saveDocument_all_or_nothing [of failing_env ?d "person ''John Smith''" empty_db]
    one_person_valid
  have r3: "saveDocument failing_env empty_db ?d
       = (empty_db, Inl (AppError ''Failed to save document: Failed to create document'' 500))"
    by (simp add: ents failing_env_simps fields)
  from saveDocument_all_or_nothing [of commit_down_env ?d "person ''John Smith''" empty_db]
  have r4: "fst (saveDocument commit_down_env empty_db ?d) = empty_db"
    by (simp add: down_env_simps)
  show ?thesis
    using one_person_valid_down one_person_valid processEntities_failing_env r1 r2 r3 r4
    by (simp add: down_env_simps person_def)
qed

section \<open>Properties of the analysis\<close>

lemma record_call_simps:
  "calls (record_call c s) = calls s @ [c]"
  "cacheService (record_call c s) = cacheService s"
  "jobs (record_call c s) = jobs s"
  "prisma (record_call c s) = prisma s"
  by (simp_all add: record_call_def)

lemma convertToImage_hit:
  "cache_get t0 (cacheService s) (''image_'' @ file_id file @ ''_'' @ mimeType file)
     = Some (CachedImage u) \<Longrightarrow>
   convertToImage env t0 t1 s file = (s, Inr u)"
  by (simp add: convertToImage_def Let_def)

lemma convertToImage_miss:
  assumes "\<forall>v. cache_get t0 (cacheService s)
               (''image_'' @ file_id file @ ''_'' @ mimeType file) \<noteq> Some (CachedImage v)"
    and "documentToImage env file = Inr u"
  shows "convertToImage env t0 t1 s file
         = ((record_call (DocumentToImage file) s)
              \<lparr>cacheService := cache_set t1 (cacheService s)
                 (''image_'' @ file_id file @ ''_'' @ mimeType file) (CachedImage u) 7200\<rparr>,
            Inr u)"
  using assms
  by (auto simp: convertToImage_def Let_def record_call_simps
      split: option.splits cached.splits)

lemma convertToImage_calls:
  "\<exists>cs. calls (fst (convertToImage env t0 t1 s file)) = calls s @ cs
        \<and> filter is_fetch cs = [] \<and> length (filter is_convert cs) \<le> 1
        \<and> filter is_classify cs = []"
  by (auto simp: convertToImage_def Let_def record_call_def
      split: option.splits cached.splits sum.splits)

lemma analyzeDocument_forced:
  "forceRefresh options = Some True \<Longrightarrow>
   analyzeDocument env clk s fileId options
   = (case analyze_uncached env clk s fileId of
        (s', Inl e) \<Rightarrow>
          (s', Inl (AppError (''Failed to analyze document: '' @ message_of e) 500))
      | (s', Inr r) \<Rightarrow> (s', Inr r))"
  by (simp add: analyzeDocument_def split: option.splits cached.splits)

lemma analyzeDocument_forced_ok:
  "forceRefresh options = Some True \<Longrightarrow> snd (analyze_uncached env clk s fileId) = Inr r \<Longrightarrow>
   analyzeDocument env clk s fileId options = (fst (analyze_uncached env clk s fileId), Inr r)"
  by (cases "analyze_uncached env clk s fileId") (simp add: analyzeDocument_forced)

lemma analyze_uncached_image_hit:
  assumes "getFileContent env fileId = Inr file0"
    and "getFileMetadata env fileId = Inr metadata"
    and "cache_get (clk 1) (cacheService s)
           (''image_'' @ file_id file0 @ ''_'' @ mimeType file0) = Some (CachedImage u)"
    and "analyzeImage env u = Inr text"
    and "parseAnalysis env text = Inr parsed"
  shows "calls (fst (analyze_uncached env clk s fileId))
           = calls s @ [GetFileContent fileId, GetFileMetadata fileId, AnalyzeImage u,
                        ParseAnalysis text]
       \<and> snd (analyze_uncached env clk s fileId)
           = Inr \<lparr>analysis = parsed, image = u, ar_fileName = meta_name metadata,
                  ar_fileId = Some fileId, processedAt = clk 3, savedDocument = None\<rparr>"
proof -
  let ?s1 = "record_call (GetFileMetadata fileId) (record_call (GetFileContent fileId) s)"
  have "convertToImage env (clk 1) (clk 2) ?s1 (file0\<lparr>file_name := meta_name metadata\<rparr>)
        = (?s1, Inr u)"
    using assms(3) by (intro convertToImage_hit) (simp add: record_call_simps)
  then show ?thesis
    using assms by (simp add: analyze_uncached_def Let_def record_call_simps)
qed

lemma analyze_uncached_image_miss:
  assumes "getFileContent env fileId = Inr file0"
    and "getFileMetadata env fileId = Inr metadata"
    and "\<forall>v. cache_get (clk 1) (cacheService s)
           (''image_'' @ file_id file0 @ ''_'' @ mimeType file0) \<noteq> Some (CachedImage v)"
    and "documentToImage env (file0\<lparr>file_name := meta_name metadata\<rparr>) = Inr u"
    and "analyzeImage env u = Inr text"
    and "parseAnalysis env text = Inr parsed"
  shows "calls (fst (analyze_uncached env clk s fileId))
           = calls s @ [GetFileContent fileId, GetFileMetadata fileId,
                        DocumentToImage (file0\<lparr>file_name := meta_name metadata\<rparr>),
                        AnalyzeImage u, ParseAnalysis text]
       \<and> snd (analyze_uncached env clk s fileId)
           = Inr \<lparr>analysis = parsed, image = u, ar_fileName = meta_name metadata,
                  ar_fileId = Some fileId, processedAt = clk 3, savedDocument = None\<rparr>"
proof -
  let ?s1 = "record_call (GetFileMetadata fileId) (record_call (GetFileContent fileId) s)"
  let ?file = "file0\<lparr>file_name := meta_name metadata\<rparr>"
  have "convertToImage env (clk 1) (clk 2) ?s1 ?file
        = ((record_call (DocumentToImage ?file) ?s1)
              \<lparr>cacheService := cache_set (clk 2) (cacheService ?s1)
                 (''image_'' @ file_id ?file @ ''_'' @ mimeType ?file) (CachedImage u) 7200\<rparr>,
            Inr u)"
    using convertToImage_miss [of "clk 1" ?s1 ?file env u "clk 2"] assms(3,4)
    by (simp add: record_call_simps)
  then show ?thesis
    using assms by (simp add: analyze_uncached_def Let_def record_call_simps)
qed

text \<open>
  Claim C3, as stated, fails: the image conversion is served from the cache. With an
  image cached for file \<open>f1\<close>, \<open>analyzeDocument\<close> with \<open>forceRefresh\<close> fetches the file
  and calls the AI service on the cached image; the converter, which would give
  another image, is not called.
\<close>

theorem forceRefresh_uses_cached_image:
  "calls (example_service image_cached) = []
   \<and> forceRefresh refresh = Some True
   \<and> documentToImage example_env \<lparr>file_id = ''f1'', file_name = ''l1.pdf'',
        mimeType = ''application/pdf'', file_data = ''%PDF''\<rparr> = Inr ''https://images/f1''
   \<and> calls (fst (analyzeDocument example_env (clock_from 1000) (example_service image_cached)
                    ''f1'' refresh))
       = [GetFileContent ''f1'', GetFileMetadata ''f1'', AnalyzeImage ''https://images/old'',
          ParseAnalysis ''raw'']
   \<and> snd (analyzeDocument example_env (clock_from 1000) (example_service image_cached)
              ''f1'' refresh)
       = Inr (example_analysis ''https://images/old'' 1003)"
  by (simp add: analysis_defs example_service_def image_cached_def refresh_def
      example_env_io example_analysis_def)

text \<open>
  Claim C3, amended: \<open>analyzeDocument\<close> with \<open>forceRefresh\<close> ignores any cached analysis
  and runs the file fetch, the AI classification and the parse again. The image
  conversion is run again only when no image is cached under
  \<open>image_<fileId>_<mimeType>\<close>; otherwise the cached image is what is classified.
  (Stated for collaborators that succeed.)
\<close>

theorem forceRefresh_reruns:
  assumes "forceRefresh options = Some True"
    and "getFileContent env fileId = Inr file0"
    and "getFileMetadata env fileId = Inr metadata"
    and "analyzeImage env u = Inr text"
    and "parseAnalysis env text = Inr parsed"
  shows "(cache_get (clk 1) (cacheService s)
            (''image_'' @ file_id file0 @ ''_'' @ mimeType file0) = Some (CachedImage u) \<longrightarrow>
          calls (fst (analyzeDocument env clk s fileId options))
            = calls s @ [GetFileContent fileId, GetFileMetadata fileId, AnalyzeImage u,
                         ParseAnalysis text]
          \<and> snd (analyzeDocument env clk s fileId options)
            = Inr \<lparr>analysis = parsed, image = u, ar_fileName = meta_name metadata,
                   ar_fileId = Some fileId, processedAt = clk 3, savedDocument = None\<rparr>)
       \<and> ((\<forall>v. cache_get (clk 1) (cacheService s)
                 (''image_'' @ file_id file0 @ ''_'' @ mimeType file0) \<noteq> Some (CachedImage v))
          \<and> documentToImage env (file0\<lparr>file_name := meta_name metadata\<rparr>) = Inr u \<longrightarrow>
          calls (fst (analyzeDocument env clk s fileId options))
            = calls s @ [GetFileContent fileId, GetFileMetadata fileId,
                         DocumentToImage (file0\<lparr>file_name := meta_name metadata\<rparr>),
                         AnalyzeImage u, ParseAnalysis text]
          \<and> snd (analyzeDocument env clk s fileId options)
            = Inr \<lparr>analysis = parsed, image = u, ar_fileName = meta_name metadata,
                   ar_fileId = Some fileId, processedAt = clk 3, savedDocument = None\<rparr>)"
proof (intro conjI impI)
  assume hit: "cache_get (clk 1) (cacheService s)
            (''image_'' @ file_id file0 @ ''_'' @ mimeType file0) = Some (CachedImage u)"
  from analyze_uncached_image_hit [where clk = clk and s = s, OF assms(2,3) hit assms(4,5)]
  show "calls (fst (analyzeDocument env clk s fileId options))
            = calls s @ [GetFileContent fileId, GetFileMetadata fileId, AnalyzeImage u,
                         ParseAnalysis text]"
    and "snd (analyzeDocument env clk s fileId options)
            = Inr \<lparr>analysis = parsed, image = u, ar_fileName = meta_name metadata,
                   ar_fileId = Some fileId, processedAt = clk 3, savedDocument = None\<rparr>"
    by (simp_all add: analyzeDocument_forced_ok [OF assms(1)])
next
  assume miss: "(\<forall>v. cache_get (clk 1) (cacheService s)
                 (''image_'' @ file_id file0 @ ''_'' @ mimeType file0) \<noteq> Some (CachedImage v))
          \<and> documentToImage env (file0\<lparr>file_name := meta_name metadata\<rparr>) = Inr u"
  from analyze_uncached_image_miss [where clk = clk and s = s,
      OF assms(2,3) conjunct1 [OF miss] conjunct2 [OF miss] assms(4,5)]
  show "calls (fst (analyzeDocument env clk s fileId options))
            = calls s @ [GetFileContent fileId, GetFileMetadata fileId,
                         DocumentToImage (file0\<lparr>file_name := meta_name metadata\<rparr>),
                         AnalyzeImage u, ParseAnalysis text]"
    and "snd (analyzeDocument env clk s fileId options)
            = Inr \<lparr>analysis = parsed, image = u, ar_fileName = meta_name metadata,
                   ar_fileId = Some fileId, processedAt = clk 3, savedDocument = None\<rparr>"
    by (simp_all add: analyzeDocument_forced_ok [OF assms(1)])
qed

theorem forceRefresh_reruns_witness:
  "forceRefresh refresh = Some True
   \<and> cache_get 1001 (cacheService (example_service image_cached)) ''image_f1_application/pdf''
       = Some (CachedImage ''https://images/old'')
   \<and> calls (fst (analyzeDocument example_env (clock_from 1000) (example_service image_cached)
                    ''f1'' refresh))
       = [GetFileContent ''f1'', GetFileMetadata ''f1'', AnalyzeImage ''https://images/old'',
          ParseAnalysis ''raw'']
   \<and> cache_get 1000 (cacheService (example_service analysis_cached)) ''analysis_f1''
       = Some (CachedAnalysis (example_analysis ''https://images/stale'' 1))
   \<and> cache_get 1001 (cacheService (example_service analysis_cached))
         ''image_f1_application/pdf'' = None
   \<and> calls (fst (analyzeDocument example_env (clock_from 1000) (example_service analysis_cached)
                    ''f1'' refresh))
       = [GetFileContent ''f1'', GetFileMetadata ''f1'',
          DocumentToImage \<lparr>file_id = ''f1'', file_name = ''l1.pdf'',
             mimeType = ''application/pdf'', file_data = ''%PDF''\<rparr>,
          AnalyzeImage ''https://images/f1'', ParseAnalysis ''raw'']
   \<and> snd (analyzeDocument example_env (clock_from 1000) (example_service analysis_cached)
              ''f1'' refresh)
       = Inr (example_analysis ''https://images/f1'' 1003)"
proof -
  have f: "forceRefresh refresh = Some True"
    by (simp add: refresh_def)
  have hit: "cache_get 1001 (cacheService (example_service image_cached))
               ''image_f1_application/pdf'' = Some (CachedImage ''https://images/old'')"
    by (simp add: cache_get_def example_service_def image_cached_def)
  have stale: "cache_get 1000 (cacheService (example_service analysis_cached)) ''analysis_f1''
       = Some (CachedAnalysis (example_analysis ''https://images/stale'' 1))"
    by (simp add: cache_get_def example_service_def analysis_cached_def)
  have miss: "cache_get 1001 (cacheService (example_service analysis_cached))
               ''image_f1_application/pdf'' = None"
    by (simp add: cache_get_def example_service_def analysis_cached_def)
  have c: "calls (example_service image_cached) = []"
    "calls (example_service analysis_cached) = []"
    by (simp_all add: example_service_def)
  note w1 = forceRefresh_reruns [where env = example_env and clk = "clock_from 1000"
      and s = "example_service image_cached" and fileId = "''f1''" and options = refresh
      and u = "''https://images/old''", OF f example_env_io(1) example_env_io(2)
      example_env_io(4) example_env_io(5)]
  note w2 = forceRefresh_reruns [where env = example_env and clk = "clock_from 1000"
      and s = "example_service analysis_cached" and fileId = "''f1''" and options = refresh
      and u = "''https://images/f1''", OF f example_env_io(1) example_env_io(2)
      example_env_io(4) example_env_io(5)]
  from w1 hit c have r1: "calls (fst (analyzeDocument example_env (clock_from 1000)
        (example_service image_cached) ''f1'' refresh))
       = [GetFileContent ''f1'', GetFileMetadata ''f1'', AnalyzeImage ''https://images/old'',
          ParseAnalysis ''raw'']"
    by simp
  from w2 miss c have r2: "calls (fst (analyzeDocument example_env (clock_from 1000)
        (example_service analysis_cached) ''f1'' refresh))
       = [GetFileContent ''f1'', GetFileMetadata ''f1'',
          DocumentToImage \<lparr>file_id = ''f1'', file_name = ''l1.pdf'',
             mimeType = ''application/pdf'', file_data = ''%PDF''\<rparr>,
          AnalyzeImage ''https://images/f1'', ParseAnalysis ''raw'']"
    and r3: "snd (analyzeDocument example_env (clock_from 1000) (example_service analysis_cached)
              ''f1'' refresh)
       = Inr (example_analysis ''https://images/f1'' 1003)"
    by (simp_all add: example_env_io example_analysis_def)
  from f hit stale miss r1 r2 r3 show ?thesis by simp
qed

lemma analyze_uncached_calls:
  "\<exists>cs. calls (fst (analyze_uncached env clk s fileId)) = calls s @ cs \<and> one_sequence cs"
proof -
  let ?s1 = "record_call (GetFileMetadata fileId) (record_call (GetFileContent fileId) s)"
  have s1: "calls ?s1 = calls s @ [GetFileContent fileId, GetFileMetadata fileId]"
    by (simp add: record_call_def)
  show ?thesis
  proof (cases "getFileContent env fileId")
    case (Inl e)
    then show ?thesis
      using s1 by (simp add: analyze_uncached_def Let_def one_sequence_def)
  next
    case c: (Inr file0)
    show ?thesis
    proof (cases "getFileMetadata env fileId")
      case (Inl e)
      then show ?thesis
        using s1 c by (simp add: analyze_uncached_def Let_def one_sequence_def)
    next
      case m: (Inr metadata)
      let ?file = "file0\<lparr>file_name := meta_name metadata\<rparr>"
      obtain s2 r2 where conv: "convertToImage env (clk 1) (clk 2) ?s1 ?file = (s2, r2)"
        by (cases "convertToImage env (clk 1) (clk 2) ?s1 ?file") auto
      from convertToImage_calls [of env "clk 1" "clk 2" ?s1 ?file] conv
      obtain cs where cs: "calls s2 = calls ?s1 @ cs" "filter is_fetch cs = []"
        "length (filter is_convert cs) \<le> 1" "filter is_classify cs = []"
        by auto
      show ?thesis
        using c m conv cs s1
        by (auto simp: analyze_uncached_def Let_def one_sequence_def record_call_def
            split: sum.splits)
    qed
  qed
qed

lemma analyze_uncached_stores:
  assumes "analyze_uncached env clk s fileId = (s1, Inr r)"
  shows "cacheService s1 (''analysis_'' @ fileId) = Some (CachedAnalysis r, clk 4 + 3600 * 1000)"
  using assms
  by (auto simp: analyze_uncached_def Let_def cache_set_def
      split: sum.splits prod.splits)

lemma analyzeDocument_cases:
  assumes "analyzeDocument env clk s fileId options = (s1, Inr r)"
  shows "(s1 = s \<and> cache_get (clk 0) (cacheService s) (''analysis_'' @ fileId)
                     = Some (CachedAnalysis r))
       \<or> analyze_uncached env clk s fileId = (s1, Inr r)"
  using assms
  by (auto simp: analyzeDocument_def split: option.splits cached.splits if_splits sum.splits
      prod.splits)

lemma analyzeDocument_hit:
  "cache_get (clk 0) (cacheService s) (''analysis_'' @ fileId) = Some (CachedAnalysis r) \<Longrightarrow>
   \<not> truthy_bool (forceRefresh options) \<Longrightarrow>
   analyzeDocument env clk s fileId options = (s, Inr r)"
  by (simp add: analyzeDocument_def)

text \<open>
  Claim C6: a call of \<open>analyzeDocument\<close> that returns a result has made at most one
  fetch, conversion and classification, and leaves the result in the cache under
  \<open>analysis_<fileId>\<close>. Every later call for the same file without \<open>forceRefresh\<close>,
  made before that entry expires, returns the same result and leaves the service as
  it is: no further call goes out to the storage, the converter or the AI service.
\<close>

theorem analyzeDocument_second_call_cached:
  assumes first: "analyzeDocument env clk1 s fileId options1 = (s1, Inr r)"
  shows "(\<exists>cs. calls s1 = calls s @ cs \<and> one_sequence cs)
       \<and> (\<exists>expiry. cacheService s1 (''analysis_'' @ fileId) = Some (CachedAnalysis r, expiry)
             \<and> (\<forall>clk2 options2.
                   clk2 0 < expiry \<and> \<not> truthy_bool (forceRefresh options2) \<longrightarrow>
                   analyzeDocument env clk2 s1 fileId options2 = (s1, Inr r)))"
proof
  from analyzeDocument_cases [OF first]
  show "\<exists>cs. calls s1 = calls s @ cs \<and> one_sequence cs"
  proof
    assume "s1 = s \<and> cache_get (clk1 0) (cacheService s) (''analysis_'' @ fileId)
                     = Some (CachedAnalysis r)"
    then show ?thesis by (simp add: one_sequence_def)
  next
    assume "analyze_uncached env clk1 s fileId = (s1, Inr r)"
    with analyze_uncached_calls [of env clk1 s fileId] show ?thesis by simp
  qed
next
  from analyzeDocument_cases [OF first]
  obtain expiry
    where e: "cacheService s1 (''analysis_'' @ fileId) = Some (CachedAnalysis r, expiry)"
  proof
    assume "s1 = s \<and> cache_get (clk1 0) (cacheService s) (''analysis_'' @ fileId)
                     = Some (CachedAnalysis r)"
    then show ?thesis
      using that by (auto simp: cache_get_def split: option.splits if_splits)
  next
    assume "analyze_uncached env clk1 s fileId = (s1, Inr r)"
    from analyze_uncached_stores [OF this] show ?thesis using that by blast
  qed
  have "analyzeDocument env clk2 s1 fileId options2 = (s1, Inr r)"
    if "clk2 0 < expiry \<and> \<not> truthy_bool (forceRefresh options2)" for clk2 options2
  proof -
    from e that
    have "cache_get (clk2 0) (cacheService s1) (''analysis_'' @ fileId)
          = Some (CachedAnalysis r)"
      by (simp add: cache_get_def)
    with that show ?thesis by (simp add: analyzeDocument_hit)
  qed
  with e show "\<exists>expiry. cacheService s1 (''analysis_'' @ fileId)
                   = Some (CachedAnalysis r, expiry)
             \<and> (\<forall>clk2 options2.
                   clk2 0 < expiry \<and> \<not> truthy_bool (forceRefresh options2) \<longrightarrow>
                   analyzeDocument env clk2 s1 fileId options2 = (s1, Inr r))"
    by blast
qed

lemma first_analysis_result:
  "snd first_analysis = Inr (example_analysis ''https://images/f1'' 1003)"
  by (simp add: first_analysis_def analysis_defs example_service_def example_env_io
      example_analysis_def no_options_def)

lemma first_analysis_calls:
  "calls (fst first_analysis)
   = [GetFileContent ''f1'', GetFileMetadata ''f1'',
      DocumentToImage \<lparr>file_id = ''f1'', file_name = ''l1.pdf'',
         mimeType = ''application/pdf'', file_data = ''%PDF''\<rparr>,
      AnalyzeImage ''https://images/f1'', ParseAnalysis ''raw'']"
  by (simp add: first_analysis_def analysis_defs example_service_def example_env_io
      no_options_def)

lemma first_analysis_cache:
  "cacheService (fst first_analysis) ''analysis_f1''
   = Some (CachedAnalysis (example_analysis ''https://images/f1'' 1003), 3601004)"
  by (simp add: first_analysis_def analysis_defs example_service_def example_env_io
      example_analysis_def no_options_def)

theorem analyzeDocument_second_call_cached_witness:
  "analyzeDocument example_env (clock_from 1000) (example_service Map.empty) ''f1'' no_options
     = (fst first_analysis, Inr (example_analysis ''https://images/f1'' 1003))
   \<and> calls (fst first_analysis)
     = [GetFileContent ''f1'', GetFileMetadata ''f1'',
        DocumentToImage \<lparr>file_id = ''f1'', file_name = ''l1.pdf'',
           mimeType = ''application/pdf'', file_data = ''%PDF''\<rparr>,
        AnalyzeImage ''https://images/f1'', ParseAnalysis ''raw'']
   \<and> \<not> truthy_bool (forceRefresh no_options)
   \<and> analyzeDocument example_env (clock_from 5000) (fst first_analysis) ''f1'' no_options
     = (fst first_analysis, Inr (example_analysis ''https://images/f1'' 1003))"
proof -
  have first: "analyzeDocument example_env (clock_from 1000) (example_service Map.empty) ''f1''
                 no_options
               = (fst first_analysis, Inr (example_analysis ''https://images/f1'' 1003))"
    using first_analysis_result by (simp add: first_analysis_def prod_eq_iff)
  have opts: "\<not> truthy_bool (forceRefresh no_options)"
    by (simp add: no_options_def)
  from analyzeDocument_second_call_cached [OF first]
  obtain expiry where e: "cacheService (fst first_analysis) (''analysis_'' @ ''f1'')
        = Some (CachedAnalysis (example_analysis ''https://images/f1'' 1003), expiry)"
    and later: "\<And>clk2 options2. clk2 0 < expiry \<and> \<not> truthy_bool (forceRefresh options2) \<Longrightarrow>
        analyzeDocument example_env clk2 (fst first_analysis) ''f1'' options2
          = (fst first_analysis, Inr (example_analysis ''https://images/f1'' 1003))"
    by blast
  from e first_analysis_cache have "expiry = 3601004" by simp
  with later [of "clock_from 5000" no_options] opts
  have "analyzeDocument example_env (clock_from 5000) (fst first_analysis) ''f1'' no_options
     = (fst first_analysis, Inr (example_analysis ''https://images/f1'' 1003))"
    by simp
  with first first_analysis_calls opts show ?thesis by simp
qed

section \<open>Properties of the job tracker\<close>

lemma write_job_simps:
  "jobHeap (write_job a f s) = (jobHeap s)(a := f (jobHeap s a))"
  "processingJobs (write_job a f s) = processingJobs s"
  "nextAddr (write_job a f s) = nextAddr s"
  by (simp_all add: write_job_def)

lemma set_job_simps:
  "jobHeap (set_job j a s) = jobHeap s"
  "processingJobs (set_job j a s) = (processingJobs s)(j \<mapsto> a)"
  "nextAddr (set_job j a s) = nextAddr s"
  by (simp_all add: set_job_def)

lemma cancelProcessing_result:
  assumes "processingJobs s jobId = Some a"
    and "status (jobHeap s a) \<noteq> Completed" and "status (jobHeap s a) \<noteq> Failed"
  shows "cancelProcessing now s jobId
         = (s\<lparr>jobHeap := (jobHeap s)
                 (a := (jobHeap s a)\<lparr>status := Cancelled, updatedAt := now\<rparr>)\<rparr>, Inr ())"
  using assms
  by (simp add: cancelProcessing_def write_job_def set_job_def fun_upd_idem)

text \<open>
  Claim C5, as stated, fails: a job that is already cancelled is not rejected.
  At the table holding \<open>job_1\<close> in state cancelled, \<open>cancelProcessing\<close> returns
  normally and moves the job's \<open>updatedAt\<close> from 2000 to 3000.
\<close>

theorem cancelProcessing_cancelled_succeeds:
  "snd (cancelProcessing 3000 (example_tracker Cancelled) ''job_1'') = Inr ()
   \<and> get_job (example_tracker Cancelled) ''job_1'' = Some (example_job Cancelled)
   \<and> get_job (fst (cancelProcessing 3000 (example_tracker Cancelled) ''job_1'')) ''job_1''
       = Some ((example_job Cancelled)\<lparr>updatedAt := 3000\<rparr>)"
  by (simp add: cancelProcessing_def example_tracker_def example_job_def get_job_def
      write_job_simps set_job_simps)

text \<open>
  Claim C5, amended: for every tracked job, \<open>cancelProcessing\<close> succeeds and leaves
  the job with status cancelled and \<open>updatedAt\<close> set to the current time when the job
  is pending, processing or already cancelled; when the job is completed or failed it
  throws \<open>AppError("Cannot cancel completed or failed job", 400)\<close> and the table is
  unchanged.
\<close>

theorem cancelProcessing_transitions:
  assumes "processingJobs s jobId = Some a"
  shows "(status (jobHeap s a) \<in> {Pending, Processing, Cancelled} \<longrightarrow>
            snd (cancelProcessing now s jobId) = Inr ()
            \<and> get_job (fst (cancelProcessing now s jobId)) jobId
                = Some ((jobHeap s a)\<lparr>status := Cancelled, updatedAt := now\<rparr>))
       \<and> (status (jobHeap s a) \<in> {Completed, Failed} \<longrightarrow>
            cancelProcessing now s jobId
              = (s, Inl (AppError ''Cannot cancel completed or failed job'' 400)))"
  using assms
  by (auto simp: cancelProcessing_def get_job_def write_job_simps set_job_simps)

theorem cancelProcessing_transitions_witness:
  "processingJobs (example_tracker Pending) ''job_1'' = Some 0
   \<and> status (jobHeap (example_tracker Pending) 0) \<in> {Pending, Processing, Cancelled}
   \<and> snd (cancelProcessing 3000 (example_tracker Pending) ''job_1'') = Inr ()
   \<and> get_job (fst (cancelProcessing 3000 (example_tracker Pending) ''job_1'')) ''job_1''
       = Some ((example_job Pending)\<lparr>status := Cancelled, updatedAt := 3000\<rparr>)
   \<and> processingJobs (example_tracker Failed) ''job_1'' = Some 0
   \<and> status (jobHeap (example_tracker Failed) 0) \<in> {Completed, Failed}
   \<and> cancelProcessing 3000 (example_tracker Failed) ''job_1''
       = (example_tracker Failed, Inl (AppError ''Cannot cancel completed or failed job'' 400))"
proof -
  have p: "processingJobs (example_tracker Pending) ''job_1'' = Some 0"
    by (simp add: example_tracker_def)
  have f: "processingJobs (example_tracker Failed) ''job_1'' = Some 0"
    by (simp add: example_tracker_def)
  have hp: "jobHeap (example_tracker Pending) 0 = example_job Pending"
    by (simp add: example_tracker_def)
  have hf: "jobHeap (example_tracker Failed) 0 = example_job Failed"
    by (simp add: example_tracker_def)
  show ?thesis
    using cancelProcessing_transitions [OF p, of 3000]
      cancelProcessing_transitions [OF f, of 3000] p f
    by (simp add: hp hf example_job_def)
qed

text \<open>
  Claim C10: a successful \<open>cancelProcessing\<close> of a pending or processing job changes
  only the status (to cancelled) and \<open>updatedAt\<close> of that job object. Its progress,
  result, error, \<open>createdAt\<close> and id stay, the map itself stays, every other job
  object stays, and so does what the table holds under every other job id (no two ids
  share an object).
\<close>

theorem cancelProcessing_frame:
  assumes tracked: "processingJobs s jobId = Some a"
    and active: "status (jobHeap s a) = Pending \<or> status (jobHeap s a) = Processing"
    and run: "cancelProcessing now s jobId = (s', r)"
  shows "r = Inr ()
       \<and> jobHeap s' a = (jobHeap s a)\<lparr>status := Cancelled, updatedAt := now\<rparr>
       \<and> progress (jobHeap s' a) = progress (jobHeap s a)
       \<and> result (jobHeap s' a) = result (jobHeap s a)
       \<and> error (jobHeap s' a) = error (jobHeap s a)
       \<and> createdAt (jobHeap s' a) = createdAt (jobHeap s a)
       \<and> job_id (jobHeap s' a) = job_id (jobHeap s a)
       \<and> processingJobs s' = processingJobs s
       \<and> nextAddr s' = nextAddr s
       \<and> (\<forall>b. b \<noteq> a \<longrightarrow> jobHeap s' b = jobHeap s b)
       \<and> (unshared s \<longrightarrow> (\<forall>j. j \<noteq> jobId \<longrightarrow> get_job s' j = get_job s j))"
proof -
  from active have "status (jobHeap s a) \<noteq> Completed" "status (jobHeap s a) \<noteq> Failed"
    by auto
  from cancelProcessing_result [OF tracked this, of now] run
  have s': "s' = s\<lparr>jobHeap := (jobHeap s)
                 (a := (jobHeap s a)\<lparr>status := Cancelled, updatedAt := now\<rparr>)\<rparr>"
    and r: "r = Inr ()"
    by simp_all
  have other: "get_job s' j = get_job s j" if u: "unshared s" and j: "j \<noteq> jobId" for j
  proof (cases "processingJobs s j")
    case None
    then show ?thesis by (simp add: get_job_def s')
  next
    case (Some b)
    with u j tracked have "b \<noteq> a" by (auto simp: unshared_def)
    with Some show ?thesis by (simp add: get_job_def s')
  qed
  show ?thesis using r other by (simp add: s')
qed

theorem cancelProcessing_frame_witness:
  "processingJobs (example_tracker Processing) ''job_1'' = Some 0
   \<and> status (jobHeap (example_tracker Processing) 0) = Processing
   \<and> unshared (example_tracker Processing)
   \<and> snd (cancelProcessing 3000 (example_tracker Processing) ''job_1'') = Inr ()
   \<and> progress (jobHeap (fst (cancelProcessing 3000 (example_tracker Processing) ''job_1'')) 0) = 50
   \<and> get_job (fst (cancelProcessing 3000 (example_tracker Processing) ''job_1'')) ''job_2''
       = Some ((example_job Completed)\<lparr>job_id := ''job_2''\<rparr>)"
proof -
  have p: "processingJobs (example_tracker Processing) ''job_1'' = Some 0"
    by (simp add: example_tracker_def)
  have st: "status (jobHeap (example_tracker Processing) 0) = Processing"
    by (simp add: example_tracker_def example_job_def)
  have u: "unshared (example_tracker Processing)"
    by (auto simp: unshared_def example_tracker_def split: if_splits)
  have g: "get_job (example_tracker Processing) ''job_2''
           = Some ((example_job Completed)\<lparr>job_id := ''job_2''\<rparr>)"
    by (simp add: get_job_def example_tracker_def)
  have pr: "progress (jobHeap (example_tracker Processing) 0) = 50"
    by (simp add: example_tracker_def example_job_def)
  from cancelProcessing_frame [OF p disjI2 [OF st] surjective_pairing, of 3000]
  show ?thesis using p st u g pr by simp
qed

lemma tracker_ok_initial:
  "tracker_ok \<lparr>jobHeap = h, nextAddr = n, processingJobs = Map.empty\<rparr>"
  by (simp add: tracker_ok_def unshared_def)

lemma tracker_ok_startAsyncProcessing:
  assumes ok: "tracker_ok (jobs s)"
  shows "tracker_ok (jobs (fst (startAsyncProcessing clk s jobId fileId options)))"
proof -
  let ?m = "processingJobs (jobs s)"
  let ?n = "nextAddr (jobs s)"
  let ?t = "jobs (fst (startAsyncProcessing clk s jobId fileId options))"
  have m': "processingJobs ?t = ?m(jobId \<mapsto> ?n)"
    and n': "nextAddr ?t = Suc ?n"
    by (simp_all add: startAsyncProcessing_def Let_def on_jobs_def set_job_def)
  from ok have inj: "j1 = j2" if "?m j1 = Some a" and "?m j2 = Some a" for j1 j2 a
    using that unfolding tracker_ok_def unshared_def by blast
  from ok have below: "a < ?n" if "?m j = Some a" for j a
    using that unfolding tracker_ok_def by blast
  have "j1 = j2"
    if h1: "(?m(jobId \<mapsto> ?n)) j1 = Some a" and h2: "(?m(jobId \<mapsto> ?n)) j2 = Some a"
    for j1 j2 a
  proof (cases "j1 = jobId")
    case True
    with h1 have a: "a = ?n" by simp
    show ?thesis
    proof (cases "j2 = jobId")
      case True
      with \<open>j1 = jobId\<close> show ?thesis by simp
    next
      case False
      with h2 have "?m j2 = Some a" by simp
      from below [OF this] a show ?thesis by simp
    qed
  next
    case False
    with h1 have m1: "?m j1 = Some a" by simp
    show ?thesis
    proof (cases "j2 = jobId")
      case True
      with h2 have "a = ?n" by simp
      with below [OF m1] show ?thesis by simp
    next
      case False
      with h2 have "?m j2 = Some a" by simp
      with m1 show ?thesis by (rule inj)
    qed
  qed
  then have u: "unshared ?t"
    unfolding unshared_def m' by blast
  have "a < Suc ?n" if h: "(?m(jobId \<mapsto> ?n)) j = Some a" for j a
  proof (cases "j = jobId")
    case True
    with h show ?thesis by simp
  next
    case False
    with h have "?m j = Some a" by simp
    from below [OF this] show ?thesis by simp
  qed
  then have "\<forall>j a. processingJobs ?t j = Some a \<longrightarrow> a < nextAddr ?t"
    unfolding m' n' by blast
  with u show ?thesis
    unfolding tracker_ok_def by blast
qed

section \<open>Properties of the background task\<close>

lemma on_jobs_simps:
  "jobs (on_jobs f s) = f (jobs s)"
  "cacheService (on_jobs f s) = cacheService s"
  "calls (on_jobs f s) = calls s"
  "prisma (on_jobs f s) = prisma s"
  by (simp_all add: on_jobs_def)

lemma task_failed_job:
  "jobHeap (jobs (task_failed now a jobId e s)) a
     = (jobHeap (jobs s) a)\<lparr>status := Failed, error := Some (message_of e), updatedAt := now\<rparr>"
  "processingJobs (jobs (task_failed now a jobId e s)) jobId = Some a"
  by (simp_all add: task_failed_def on_jobs_simps write_job_simps set_job_simps)

text \<open>
  Claim C2 fails on the code: the background task never reads the status of its job.
  A job is submitted and its task runs up to the awaited analysis; the job is then
  cancelled, which succeeds and leaves it cancelled with progress 50. When the task
  resumes it writes progress, result and status: the job ends completed, with
  progress 100 and the analysis as result.
\<close>

theorem cancelled_job_completes:
  "get_job (jobs (fst run_awaiting)) ''job_1''
     = Some \<lparr>job_id = ''job_1'', status = Processing, progress = 50, result = None,
             error = None, createdAt = 100, updatedAt = 201\<rparr>
   \<and> snd run_cancelled = Inr ()
   \<and> get_job (jobs (fst run_cancelled)) ''job_1''
     = Some \<lparr>job_id = ''job_1'', status = Cancelled, progress = 50, result = None,
             error = None, createdAt = 100, updatedAt = 300\<rparr>
   \<and> get_job (jobs (fst run_resumed)) ''job_1''
     = Some \<lparr>job_id = ''job_1'', status = Completed, progress = 100,
             result = Some (example_analysis ''https://images/f1'' 205),
             error = None, createdAt = 100, updatedAt = 401\<rparr>"
  by (simp add: run_resumed_def run_cancelled_def run_awaiting_def run_submitted_def job_defs
      analysis_defs example_service_def example_env_io example_analysis_def no_options_def
      split: prod.splits)

lemma task_step_ends:
  assumes "task_step env clk (s, t) = (s', t')"
  shows "(\<exists>a j f opts. t = Scheduled a j f opts) \<and> (\<exists>a j opts outcome. t' = AwaitAnalyze a j opts outcome)
       \<or> (\<exists>a j opts outcome. t = AwaitAnalyze a j opts outcome) \<and> (t' = Done \<or> (\<exists>a j r outcome. t' = AwaitSave a j r outcome))
       \<or> (\<exists>a j r outcome. t = AwaitSave a j r outcome) \<and> t' = Done
       \<or> t = Done \<and> t' = Done"
  using assms
  by (cases "(env, clk, (s, t))" rule: task_step.cases)
     (auto simp: Let_def split: prod.splits if_splits)

lemma run_ai_down_awaiting:
  "task_step ai_down_env (clock_from 200) run_submitted
   = (fst (task_step ai_down_env (clock_from 200) run_submitted),
      AwaitAnalyze 0 ''job_1'' no_options
        (Inl (AppError ''Failed to analyze document: AI unavailable'' 500)))"
  by (simp add: run_submitted_def job_defs analysis_defs example_service_def ai_down_env_io
      no_options_def prod_eq_iff split: prod.splits)

lemma run_ai_down_job:
  "jobHeap (jobs (fst (task_step ai_down_env (clock_from 200) run_submitted))) 0
   = \<lparr>job_id = ''job_1'', status = Processing, progress = 50, result = None,
      error = None, createdAt = 100, updatedAt = 201\<rparr>"
  by (simp add: run_submitted_def job_defs analysis_defs example_service_def ai_down_env_io
      no_options_def split: prod.splits)

lemma failing_env_io:
  "getFileContent failing_env f
     = Inr \<lparr>file_id = f, file_name = f, mimeType = ''application/pdf'', file_data = ''%PDF''\<rparr>"
  "getFileMetadata failing_env f
     = Inr \<lparr>meta_name = ''l1.pdf'', meta_mimeType = ''application/pdf''\<rparr>"
  "documentToImage failing_env file = Inr (''https://images/'' @ file_id file)"
  "analyzeImage failing_env u = Inr ''raw''"
  "parseAnalysis failing_env t
     = Inr \<lparr>pa_documentType = ''letter'', pa_title = ''Letter from the Front'',
            pa_content = ''Dear all'',
            pa_entities = [\<lparr>ent_id = None, ent_name = ''John Smith'',
                            ent_date = None, ent_type = ''person''\<rparr>]\<rparr>"
  by (simp_all add: failing_env_def example_env_def)

lemma store_down_submitted_eq:
  "store_down_submitted
   = (fst store_down_submitted, Scheduled 0 ''job_1'' ''f1'' save_options)"
  by (simp add: store_down_submitted_def startAsyncProcessing_def Let_def example_service_def)

lemma store_down_analyzed_task:
  "snd store_down_analyzed
   = AwaitAnalyze 0 ''job_1'' save_options (Inr (example_analysis ''https://images/f1'' 205))"
  unfolding store_down_analyzed_def
  by (subst store_down_submitted_eq)
     (simp add: store_down_submitted_def job_defs analysis_defs example_service_def
        failing_env_io example_analysis_def split: prod.splits)

lemma example_analysis_save:
  "saveDocument failing_env empty_db
     \<lparr>title = pa_title (analysis (example_analysis ''https://images/f1'' 205)),
      fileName = ar_fileName (example_analysis ''https://images/f1'' 205),
      content = pa_content (analysis (example_analysis ''https://images/f1'' 205)),
      imageUrl = Some (image (example_analysis ''https://images/f1'' 205)),
      documentType = pa_documentType (analysis (example_analysis ''https://images/f1'' 205)),
      entities = pa_entities (analysis (example_analysis ''https://images/f1'' 205))\<rparr>
   = (empty_db, Inl (AppError ''Failed to save document: Failed to create document'' 500))"
  by (simp add: saveDocument_def example_analysis_def validation_defs store_defs empty_db_def
      failing_env_simps example_env_simps)

lemma store_down_analyzed_prisma:
  "prisma (fst store_down_analyzed) = empty_db"
  unfolding store_down_analyzed_def
  by (subst store_down_submitted_eq)
     (simp add: store_down_submitted_def job_defs analysis_defs example_service_def
        failing_env_io split: prod.splits)

lemma store_down_saving_task:
  "snd store_down_saving
   = AwaitSave 0 ''job_1'' (example_analysis ''https://images/f1'' 205)
       (Inl (AppError ''Failed to save document: Failed to create document'' 500))"
proof -
  have "store_down_analyzed = (fst store_down_analyzed,
      AwaitAnalyze 0 ''job_1'' save_options (Inr (example_analysis ''https://images/f1'' 205)))"
    using store_down_analyzed_task by (simp add: prod_eq_iff)
  then show ?thesis
    unfolding store_down_saving_def
    by (elim ssubst)
       (simp add: save_options_def on_jobs_simps example_analysis_save
          store_down_analyzed_prisma Let_def split: prod.splits)
qed

lemma store_down_saving_job:
  "jobHeap (jobs (fst store_down_saving)) 0
   = \<lparr>job_id = ''job_1'', status = Processing, progress = 80, result = None,
      error = None, createdAt = 100, updatedAt = 400\<rparr>"
  by (simp add: store_down_saving_def store_down_analyzed_def store_down_submitted_def
      job_defs analysis_defs example_service_def failing_env_io save_options_def
      split: prod.splits)


lemma convertToImage_on_jobs:
  "convertToImage env t0 t1 (on_jobs f s) file
   = (case convertToImage env t0 t1 s file of (s', r) \<Rightarrow> (on_jobs f s', r))"
  by (simp add: convertToImage_def Let_def on_jobs_def record_call_def
      split: option.splits cached.splits sum.splits)

lemma record_call_on_jobs: "record_call c (on_jobs f s) = on_jobs f (record_call c s)"
  by (simp add: on_jobs_def record_call_def)

lemma analyze_uncached_on_jobs:
  "analyze_uncached env clk (on_jobs f s) fileId
   = (case analyze_uncached env clk s fileId of (s', r) \<Rightarrow> (on_jobs f s', r))"
  by (simp add: analyze_uncached_def Let_def record_call_on_jobs convertToImage_on_jobs
      split: sum.splits prod.splits)
     (simp add: on_jobs_def record_call_def)

lemma analyzeDocument_on_jobs:
  "analyzeDocument env clk (on_jobs f s) fileId options
   = (case analyzeDocument env clk s fileId options of (s', r) \<Rightarrow> (on_jobs f s', r))"
  by (simp add: analyzeDocument_def analyze_uncached_on_jobs on_jobs_simps
      split: option.splits cached.splits prod.splits sum.splits)


lemma task_step_Scheduled_outcome:
  "snd (task_step env clk (s, Scheduled a jobId fileId options))
   = AwaitAnalyze a jobId options
       (snd (analyzeDocument env (\<lambda>k. clk (k + 2)) s fileId options))"
  by (simp add: Let_def analyzeDocument_on_jobs split: prod.splits)

lemma task_step_save_outcome:
  "truthy_bool (autoSave options) \<Longrightarrow>
   snd (task_step env clk (s, AwaitAnalyze a jobId options (Inr r)))
   = AwaitSave a jobId r
       (snd (saveDocument env (prisma s)
          \<lparr>title = pa_title (analysis r), fileName = ar_fileName r,
           content = pa_content (analysis r), imageUrl = Some (image r),
           documentType = pa_documentType (analysis r),
           entities = pa_entities (analysis r)\<rparr>))"
  by (simp add: Let_def on_jobs_simps split: prod.splits)

lemma clock_shift: "(\<lambda>k. clock_from 200 (k + 2)) = clock_from 202"
  by (simp add: clock_from_def fun_eq_iff)

lemma ai_down_analysis:
  "snd (analyzeDocument ai_down_env (clock_from 202) (fst run_submitted) ''f1'' no_options)
   = Inl (AppError ''Failed to analyze document: AI unavailable'' 500)"
  by (simp add: run_submitted_def job_defs analysis_defs example_service_def ai_down_env_io
      no_options_def split: prod.splits)

lemma store_down_analysis:
  "snd (analyzeDocument failing_env (clock_from 202) (fst store_down_submitted) ''f1''
          save_options)
   = Inr (example_analysis ''https://images/f1'' 205)"
  by (simp add: store_down_submitted_def job_defs analysis_defs example_service_def
      failing_env_io example_analysis_def save_options_def split: prod.splits)

text \<open>
  Claim C9: for every submitted job, take the run of its background task from the
  start and the next two runs, each from whatever state the service is in when the
  task resumes. When \<open>analyzeDocument\<close> throws, the next run ends the task with the job
  set to failed, the message of the error in the job's error field, and the job
  stored in the table. When the analysis returns, \<open>autoSave\<close> is set and
  \<open>saveDocument\<close> throws, the run after that does the same. After the three runs the
  task has ended in every case: a run yields a state and a task, and an error of an
  awaited call is only ever passed to the \<open>catch\<close> block.
\<close>

theorem background_failure_recorded:
  assumes run1: "task_step env clk1 (s, Scheduled a jobId fileId options) = (s1, t1)"
    and run2: "task_step env clk2 (s1', t1) = (s2, t2)"
    and run3: "task_step env clk3 (s2', t2) = (s3, t3)"
  shows "t3 = Done
       \<and> (snd (analyzeDocument env (\<lambda>k. clk1 (k + 2)) s fileId options) = Inl e \<longrightarrow>
            t2 = Done
            \<and> get_job (jobs s2) jobId
                = Some ((jobHeap (jobs s1') a)
                          \<lparr>status := Failed, error := Some (message_of e), updatedAt := clk2 0\<rparr>))
       \<and> (snd (analyzeDocument env (\<lambda>k. clk1 (k + 2)) s fileId options) = Inr r
          \<and> truthy_bool (autoSave options)
          \<and> snd (saveDocument env (prisma s1')
                 \<lparr>title = pa_title (analysis r), fileName = ar_fileName r,
                  content = pa_content (analysis r), imageUrl = Some (image r),
                  documentType = pa_documentType (analysis r),
                  entities = pa_entities (analysis r)\<rparr>) = Inl e \<longrightarrow>
            get_job (jobs s3) jobId
                = Some ((jobHeap (jobs s2') a)
                          \<lparr>status := Failed, error := Some (message_of e), updatedAt := clk3 0\<rparr>))"
proof (intro conjI impI)
  from task_step_ends [OF run1] obtain a1 j1 o1 outcome1
    where t1: "t1 = AwaitAnalyze a1 j1 o1 outcome1" by auto
  from task_step_ends [OF run2] t1
  have t2: "t2 = Done \<or> (\<exists>a j r outcome. t2 = AwaitSave a j r outcome)" by auto
  from task_step_ends [OF run3] t2 show "t3 = Done" by auto
next
  assume "snd (analyzeDocument env (\<lambda>k. clk1 (k + 2)) s fileId options) = Inl e"
  with task_step_Scheduled_outcome [of env clk1 s a jobId fileId options] run1
  have "t1 = AwaitAnalyze a jobId options (Inl e)" by simp
  with run2 have "s2 = task_failed (clk2 0) a jobId e s1'" and "t2 = Done" by simp_all
  then show "t2 = Done" and "get_job (jobs s2) jobId
                = Some ((jobHeap (jobs s1') a)
                          \<lparr>status := Failed, error := Some (message_of e), updatedAt := clk2 0\<rparr>)"
    by (simp_all add: get_job_def task_failed_job)
next
  assume h: "snd (analyzeDocument env (\<lambda>k. clk1 (k + 2)) s fileId options) = Inr r
          \<and> truthy_bool (autoSave options)
          \<and> snd (saveDocument env (prisma s1')
                 \<lparr>title = pa_title (analysis r), fileName = ar_fileName r,
                  content = pa_content (analysis r), imageUrl = Some (image r),
                  documentType = pa_documentType (analysis r),
                  entities = pa_entities (analysis r)\<rparr>) = Inl e"
  with task_step_Scheduled_outcome [of env clk1 s a jobId fileId options] run1
  have "t1 = AwaitAnalyze a jobId options (Inr r)" by simp
  with task_step_save_outcome [of options env clk2 s1' a jobId r] run2 h
  have "t2 = AwaitSave a jobId r (Inl e)" by simp
  with run3 have "s3 = task_failed (clk3 0) a jobId e s2'" by simp
  then show "get_job (jobs s3) jobId
                = Some ((jobHeap (jobs s2') a)
                          \<lparr>status := Failed, error := Some (message_of e), updatedAt := clk3 0\<rparr>)"
    by (simp add: get_job_def task_failed_job)
qed


theorem background_failure_recorded_witness:
  "snd (analyzeDocument ai_down_env (clock_from 202) (fst run_submitted) ''f1'' no_options)
     = Inl (AppError ''Failed to analyze document: AI unavailable'' 500)
   \<and> snd run_ai_down = Done
   \<and> get_job (jobs (fst run_ai_down)) ''job_1''
     = Some \<lparr>job_id = ''job_1'', status = Failed, progress = 50, result = None,
             error = Some ''Failed to analyze document: AI unavailable'',
             createdAt = 100, updatedAt = 400\<rparr>
   \<and> snd (analyzeDocument failing_env (clock_from 202) (fst store_down_submitted) ''f1''
            save_options)
     = Inr (example_analysis ''https://images/f1'' 205)
   \<and> truthy_bool (autoSave save_options)
   \<and> prisma (fst store_down_analyzed) = empty_db
   \<and> saveDocument failing_env empty_db
       \<lparr>title = pa_title (analysis (example_analysis ''https://images/f1'' 205)),
        fileName = ar_fileName (example_analysis ''https://images/f1'' 205),
        content = pa_content (analysis (example_analysis ''https://images/f1'' 205)),
        imageUrl = Some (image (example_analysis ''https://images/f1'' 205)),
        documentType = pa_documentType (analysis (example_analysis ''https://images/f1'' 205)),
        entities = pa_entities (analysis (example_analysis ''https://images/f1'' 205))\<rparr>
     = (empty_db, Inl (AppError ''Failed to save document: Failed to create document'' 500))
   \<and> snd store_down_ended = Done
   \<and> get_job (jobs (fst store_down_ended)) ''job_1''
     = Some \<lparr>job_id = ''job_1'', status = Failed, progress = 80, result = None,
             error = Some ''Failed to save document: Failed to create document'',
             createdAt = 100, updatedAt = 600\<rparr>"
proof -
  let ?e = "AppError ''Failed to analyze document: AI unavailable'' 500"
  let ?r = "example_analysis ''https://images/f1'' 205"
  let ?s1 = "fst (task_step ai_down_env (clock_from 200) run_submitted)"
  let ?t1 = "snd (task_step ai_down_env (clock_from 200) run_submitted)"
  have sub: "run_submitted = (fst run_submitted, Scheduled 0 ''job_1'' ''f1'' no_options)"
    by (simp add: run_submitted_def startAsyncProcessing_def Let_def example_service_def)
  have a1: "task_step ai_down_env (clock_from 200)
              (fst run_submitted, Scheduled 0 ''job_1'' ''f1'' no_options) = (?s1, ?t1)"
    using sub by simp
  have a2: "task_step ai_down_env (clock_from 400) (?s1, ?t1)
            = (fst run_ai_down, snd run_ai_down)"
    by (simp add: run_ai_down_def)
  have a3: "task_step ai_down_env (clock_from 600) (fst run_ai_down, snd run_ai_down)
            = (fst (task_step ai_down_env (clock_from 600) run_ai_down),
               snd (task_step ai_down_env (clock_from 600) run_ai_down))"
    by simp
  from background_failure_recorded [where e = ?e and r = ?r, OF a1 a2 a3, unfolded clock_shift]
    ai_down_analysis
  have r1: "snd run_ai_down = Done"
    and r2: "get_job (jobs (fst run_ai_down)) ''job_1''
       = Some ((jobHeap (jobs ?s1) 0)
                 \<lparr>status := Failed, error := Some (message_of ?e), updatedAt := 400\<rparr>)"
    by simp_all
  let ?f = "AppError ''Failed to save document: Failed to create document'' 500"
  have b1: "task_step failing_env (clock_from 200)
              (fst store_down_submitted, Scheduled 0 ''job_1'' ''f1'' save_options)
            = (fst store_down_analyzed, snd store_down_analyzed)"
    unfolding store_down_analyzed_def by (subst (2 3) store_down_submitted_eq) simp
  have b2: "task_step failing_env (clock_from 400) (fst store_down_analyzed, snd store_down_analyzed)
            = (fst store_down_saving, snd store_down_saving)"
    by (simp add: store_down_saving_def)
  have b3: "task_step failing_env (clock_from 600) (fst store_down_saving, snd store_down_saving)
            = (fst store_down_ended, snd store_down_ended)"
    by (simp add: store_down_ended_def)
  have opts: "truthy_bool (autoSave save_options)"
    by (simp add: save_options_def)
  from background_failure_recorded [where e = ?f and r = ?r, OF b1 b2 b3,
      unfolded clock_shift]
    store_down_analysis opts example_analysis_save store_down_analyzed_prisma
  have r3: "snd store_down_ended = Done"
    and r4: "get_job (jobs (fst store_down_ended)) ''job_1''
       = Some ((jobHeap (jobs (fst store_down_saving)) 0)
                 \<lparr>status := Failed, error := Some (message_of ?f), updatedAt := 600\<rparr>)"
    by simp_all
  show ?thesis
    using ai_down_analysis store_down_analysis opts example_analysis_save
      store_down_analyzed_prisma r1 r2 r3 r4
    by (simp add: run_ai_down_job store_down_saving_job)
qed

end
